theory Spec2Isabelle
  imports Complex_Main
begin

section \<open>Risk presentation: the style table and its lookup\<close>

text \<open>
  Strings of the program are modelled as \<^typ>\<open>string\<close>. The glyphs of the style table lie
  outside ASCII and are written as their UTF-8 bytes.

  \<^verbatim>\<open>interface RiskStyle { fill; stroke; glow; label; icon }\<close>
\<close>

record RiskStyle =
  fill :: string
  stroke :: string
  glow :: string
  label :: string
  icon :: string

text \<open>
  The object \<^verbatim>\<open>T\<close> of design tokens holds colour strings and the five style entries in
  one object. A member read \<^verbatim>\<open>T[k]\<close> finds an own property, else a member that every
  object inherits from \<^verbatim>\<open>Object.prototype\<close>, else \<^verbatim>\<open>undefined\<close>.
\<close>

datatype token = Colour string | Style RiskStyle | Inherited string

definition LOW_style :: RiskStyle where
  "LOW_style = \<lparr>fill = ''#0d3320'', stroke = ''#1a6640'', glow = ''#00ff88'',
     label = ''LOW RISK'', icon = [CHR 0xE2, CHR 0x97, CHR 0x86]\<rparr>"

definition MEDIUM_style :: RiskStyle where
  "MEDIUM_style = \<lparr>fill = ''#2d1f00'', stroke = ''#7a5200'', glow = ''#ffaa00'',
     label = ''ELEVATED'', icon = [CHR 0xE2, CHR 0x96, CHR 0xB2]\<rparr>"

definition HIGH_style :: RiskStyle where
  "HIGH_style = \<lparr>fill = ''#2d0a0a'', stroke = ''#8b1a1a'', glow = ''#ff4444'',
     label = ''HIGH RISK'', icon = [CHR 0xE2, CHR 0x96, CHR 0xA0]\<rparr>"

definition URGENT_style :: RiskStyle where
  "URGENT_style = \<lparr>fill = ''#2d0020'', stroke = ''#8b0060'', glow = ''#ff00aa'',
     label = ''URGENT'', icon = [CHR 0xE2, CHR 0x97, CHR 0x89]\<rparr>"

definition NONE_style :: RiskStyle where
  "NONE_style = \<lparr>fill = ''#0c1220'', stroke = ''#1a2540'', glow = ''#4a6080'',
     label = [CHR 0xE2, CHR 0x80, CHR 0x94], icon = [CHR 0xE2, CHR 0x97, CHR 0x8B]\<rparr>"

text \<open>The table of \<^verbatim>\<open>src/Dashboard_App.tsx\<close>.\<close>

definition T :: "(string \<times> token) list" where
  "T = [(''bg'', Colour ''#060a12''), (''surface'', Colour ''#0c1220''),
        (''border'', Colour ''#1a2540''), (''borderHi'', Colour ''#243050''),
        (''text'', Colour ''#c8d8f0''), (''muted'', Colour ''#4a6080''),
        (''LOW'', Style LOW_style), (''MEDIUM'', Style MEDIUM_style),
        (''HIGH'', Style HIGH_style), (''URGENT'', Style URGENT_style),
        (''NONE'', Style NONE_style)]"

text \<open>The table of the resident (PCNA) variant of the dashboard, \<^verbatim>\<open>unnamed/part_000\<close>.\<close>

definition LOW_pcna :: RiskStyle where
  "LOW_pcna = \<lparr>fill = ''#041a10'', stroke = ''#0a3d22'', glow = ''#00e676'',
     label = ''LOW RISK'', icon = [CHR 0xE2, CHR 0x97, CHR 0x86]\<rparr>"

definition MEDIUM_pcna :: RiskStyle where
  "MEDIUM_pcna = \<lparr>fill = ''#1a1000'', stroke = ''#4d3300'', glow = ''#ffb300'',
     label = ''MONITOR'', icon = [CHR 0xE2, CHR 0x96, CHR 0xB2]\<rparr>"

definition HIGH_pcna :: RiskStyle where
  "HIGH_pcna = \<lparr>fill = ''#1a0606'', stroke = ''#5c1010'', glow = ''#ff3d3d'',
     label = ''HIGH RISK'', icon = [CHR 0xE2, CHR 0x96, CHR 0xA0]\<rparr>"

definition URGENT_pcna :: RiskStyle where
  "URGENT_pcna = \<lparr>fill = ''#1a0014'', stroke = ''#5c0050'', glow = ''#e040fb'',
     label = ''URGENT'', icon = [CHR 0xE2, CHR 0x97, CHR 0x89]\<rparr>"

definition NONE_pcna :: RiskStyle where
  "NONE_pcna = \<lparr>fill = ''#080e1a'', stroke = ''#141e35'', glow = ''#3d5470'',
     label = [CHR 0xE2, CHR 0x80, CHR 0x94], icon = [CHR 0xE2, CHR 0x97, CHR 0x8B]\<rparr>"

definition T_pcna :: "(string \<times> token) list" where
  "T_pcna = [(''bg'', Colour ''#04080f''), (''surface'', Colour ''#080e1a''),
        (''surfaceHi'', Colour ''#0c1425''), (''border'', Colour ''#141e35''),
        (''borderHi'', Colour ''#1e2e4a''), (''text'', Colour ''#d0e4f8''),
        (''muted'', Colour ''#3d5470''), (''accent'', Colour ''#0066ff''),
        (''LOW'', Style LOW_pcna), (''MEDIUM'', Style MEDIUM_pcna),
        (''HIGH'', Style HIGH_pcna), (''URGENT'', Style URGENT_pcna),
        (''NONE'', Style NONE_pcna)]"

text \<open>The property names of \<^verbatim>\<open>Object.prototype\<close>, which every object literal inherits.\<close>

definition object_prototype_keys :: "string list" where
  "object_prototype_keys = [''constructor'', ''hasOwnProperty'', ''isPrototypeOf'',
     ''propertyIsEnumerable'', ''toLocaleString'', ''toString'', ''valueOf'',
     ''__proto__'', ''__defineGetter__'', ''__defineSetter__'',
     ''__lookupGetter__'', ''__lookupSetter__'']"

text \<open>\<^verbatim>\<open>tbl[k]\<close>: \<open>None\<close> is \<^verbatim>\<open>undefined\<close>.\<close>

definition member :: "(string \<times> token) list \<Rightarrow> string \<Rightarrow> token option" where
  "member tbl k =
     (case map_of tbl k of
        Some v \<Rightarrow> Some v
      | None \<Rightarrow> if k \<in> set object_prototype_keys then Some (Inherited k) else None)"

text \<open>
  \<^verbatim>\<open>const risk = (lvl?: RiskLevel | string): RiskStyle =>
    (T as unknown as Record<string, RiskStyle>)[lvl ?? ""] ?? T.NONE;\<close>

  The argument is \<open>None\<close> when the level is missing. The cast is erased at run time, so
  the value returned is whatever member the key finds; \<^verbatim>\<open>T.NONE\<close> is read from the same
  table.
\<close>

definition risk_in :: "(string \<times> token) list \<Rightarrow> string option \<Rightarrow> token option" where
  "risk_in tbl lvl =
     (case member tbl (case lvl of None \<Rightarrow> [] | Some l \<Rightarrow> l) of
        Some v \<Rightarrow> Some v
      | None \<Rightarrow> member tbl ''NONE'')"

definition risk :: "string option \<Rightarrow> token option" where
  "risk = risk_in T"

definition risk_pcna :: "string option \<Rightarrow> token option" where
  "risk_pcna = risk_in T_pcna"

definition levels :: "string list" where
  "levels = [''LOW'', ''MEDIUM'', ''HIGH'', ''URGENT'']"

section \<open>Numbers\<close>

text \<open>
  A value of the type \<^verbatim>\<open>number\<close>: a finite number, one of the two infinities, or
  not-a-number. Finite doubles are modelled by the real numbers they denote; rounding to
  53 bits and the sign of zero are not modelled.
\<close>

datatype jsnum = NaN | Num real | PInf | NInf

fun js_mul :: "jsnum \<Rightarrow> jsnum \<Rightarrow> jsnum" where
  "js_mul NaN _ = NaN"
| "js_mul _ NaN = NaN"
| "js_mul (Num x) (Num y) = Num (x * y)"
| "js_mul (Num x) PInf = (if x = 0 then NaN else if 0 < x then PInf else NInf)"
| "js_mul (Num x) NInf = (if x = 0 then NaN else if 0 < x then NInf else PInf)"
| "js_mul PInf (Num y) = (if y = 0 then NaN else if 0 < y then PInf else NInf)"
| "js_mul NInf (Num y) = (if y = 0 then NaN else if 0 < y then NInf else PInf)"
| "js_mul PInf PInf = PInf"
| "js_mul PInf NInf = NInf"
| "js_mul NInf PInf = NInf"
| "js_mul NInf NInf = PInf"

fun js_sub :: "jsnum \<Rightarrow> jsnum \<Rightarrow> jsnum" where
  "js_sub NaN _ = NaN"
| "js_sub _ NaN = NaN"
| "js_sub (Num x) (Num y) = Num (x - y)"
| "js_sub (Num x) PInf = NInf"
| "js_sub (Num x) NInf = PInf"
| "js_sub PInf (Num y) = PInf"
| "js_sub NInf (Num y) = NInf"
| "js_sub PInf PInf = NaN"
| "js_sub PInf NInf = PInf"
| "js_sub NInf PInf = NInf"
| "js_sub NInf NInf = NaN"

fun js_div :: "jsnum \<Rightarrow> jsnum \<Rightarrow> jsnum" where
  "js_div NaN _ = NaN"
| "js_div _ NaN = NaN"
| "js_div (Num x) (Num y) =
     (if y \<noteq> 0 then Num (x / y)
      else if x = 0 then NaN else if 0 < x then PInf else NInf)"
| "js_div (Num x) PInf = Num 0"
| "js_div (Num x) NInf = Num 0"
| "js_div PInf (Num y) = (if 0 \<le> y then PInf else NInf)"
| "js_div NInf (Num y) = (if 0 \<le> y then NInf else PInf)"
| "js_div PInf PInf = NaN"
| "js_div PInf NInf = NaN"
| "js_div NInf PInf = NaN"
| "js_div NInf NInf = NaN"

text \<open>Truthiness of a number: \<^verbatim>\<open>NaN\<close> and zero are falsy.\<close>

fun truthy_num :: "jsnum \<Rightarrow> bool" where
  "truthy_num NaN = False"
| "truthy_num (Num x) = (x \<noteq> 0)"
| "truthy_num PInf = True"
| "truthy_num NInf = True"

text \<open>\<^verbatim>\<open>v || d\<close> for a possibly absent number \<open>v\<close> (\<open>None\<close> is \<^verbatim>\<open>undefined\<close> or \<^verbatim>\<open>null\<close>).\<close>

definition num_or :: "jsnum option \<Rightarrow> jsnum \<Rightarrow> jsnum" where
  "num_or v d = (case v of None \<Rightarrow> d | Some n \<Rightarrow> if truthy_num n then n else d)"

text \<open>\<^verbatim>\<open>Math.round\<close>: to the nearest integer, a half going up.\<close>

fun Math_round :: "jsnum \<Rightarrow> jsnum" where
  "Math_round (Num x) = Num (of_int \<lfloor>x + 1 / 2\<rfloor>)"
| "Math_round n = n"

subsection \<open>Printing integers\<close>

definition digit_char :: "nat \<Rightarrow> char" where
  "digit_char d = ''0123456789'' ! d"

fun show_nat :: "nat \<Rightarrow> string" where
  "show_nat n = (if n < 10 then [digit_char n] else show_nat (n div 10) @ [digit_char (n mod 10)])"

definition show_int :: "int \<Rightarrow> string" where
  "show_int i = (if i < 0 then CHR ''-'' # show_nat (nat (- i)) else show_nat (nat i))"

text \<open>
  \<^verbatim>\<open>String(n)\<close> of a number that is an integer or not finite, which is what
  \<^verbatim>\<open>Math.round\<close> returns (integers below \<open>10\<^sup>2\<^sup>1\<close>, beyond which the text has an
  exponent).
\<close>

fun show_rounded :: "jsnum \<Rightarrow> string" where
  "show_rounded NaN = ''NaN''"
| "show_rounded PInf = ''Infinity''"
| "show_rounded NInf = ''-Infinity''"
| "show_rounded (Num x) = show_int \<lfloor>x\<rfloor>"

text \<open>
  \<^verbatim>\<open>n.toFixed(0)\<close>: the sign, then the nearest integer to the magnitude, the larger one
  at a tie (magnitudes below \<open>10\<^sup>2\<^sup>1\<close>, beyond which the method prints an exponent).
\<close>

fun toFixed0 :: "jsnum \<Rightarrow> string" where
  "toFixed0 NaN = ''NaN''"
| "toFixed0 PInf = ''Infinity''"
| "toFixed0 NInf = ''-Infinity''"
| "toFixed0 (Num x) =
     (if x < 0 then CHR ''-'' # show_nat (nat \<lfloor>- x + 1 / 2\<rfloor>)
      else show_nat (nat \<lfloor>x + 1 / 2\<rfloor>))"

section \<open>The ring gauge\<close>

text \<open>
  \<^verbatim>\<open>function RiskOrb({ score, level, size = 120 }) {
    const r = risk(level);
    const pct = score != null ? Math.round(score * 100) : null;
    const circumference = 2 * Math.PI * 45;
    const dashOffset = circumference - (circumference * (score || 0));
    ... }\<close>

  The resident variant has the radius 42 and shows the halo only above a score of 0.1.
  The view record holds what the component draws: whether the halo is there, the
  \<^verbatim>\<open>strokeDasharray\<close> and \<^verbatim>\<open>strokeDashoffset\<close> of the coloured circle when it is drawn,
  the text in the centre and whether the caption is drawn.
\<close>

record orb_view =
  halo :: bool
  arc :: "(jsnum \<times> jsnum) option"
  centre :: string
  caption :: bool

definition circumference_of :: "real \<Rightarrow> real" where
  "circumference_of radius = 2 * pi * radius"

definition pct_of :: "jsnum option \<Rightarrow> jsnum option" where
  "pct_of score = (case score of None \<Rightarrow> None | Some s \<Rightarrow> Some (Math_round (js_mul s (Num 100))))"

definition dashOffset_of :: "real \<Rightarrow> jsnum option \<Rightarrow> jsnum" where
  "dashOffset_of radius score =
     js_sub (Num (circumference_of radius))
       (js_mul (Num (circumference_of radius)) (num_or score (Num 0)))"

definition em_dash :: string where
  "em_dash = [CHR 0xE2, CHR 0x80, CHR 0x94]"

definition orb_body :: "real \<Rightarrow> bool \<Rightarrow> jsnum option \<Rightarrow> orb_view" where
  "orb_body radius halo_shown score =
     \<lparr>halo = halo_shown,
      arc = (if score \<noteq> None
             then Some (Num (circumference_of radius), dashOffset_of radius score)
             else None),
      centre = (case pct_of score of None \<Rightarrow> em_dash | Some p \<Rightarrow> show_rounded p),
      caption = (pct_of score \<noteq> None)\<rparr>"

text \<open>\<^verbatim>\<open>level && level !== "NONE"\<close>\<close>

definition level_shown :: "string option \<Rightarrow> bool" where
  "level_shown level = (case level of None \<Rightarrow> False | Some l \<Rightarrow> l \<noteq> [] \<and> l \<noteq> ''NONE'')"

definition RiskOrb :: "jsnum option \<Rightarrow> string option \<Rightarrow> orb_view" where
  "RiskOrb score level = orb_body 45 (level_shown level) score"

text \<open>\<^verbatim>\<open>level && level !== "NONE" && score != null && score > 0.1\<close>\<close>

fun above_tenth :: "jsnum \<Rightarrow> bool" where
  "above_tenth NaN = False"
| "above_tenth (Num x) = (1 / 10 < x)"
| "above_tenth PInf = True"
| "above_tenth NInf = False"

definition RiskOrb_pcna :: "jsnum option \<Rightarrow> string option \<Rightarrow> orb_view" where
  "RiskOrb_pcna score level =
     orb_body 42
       (level_shown level \<and> (case score of None \<Rightarrow> False | Some s \<Rightarrow> above_tenth s))
       score"

text \<open>
  A circle stroked with the dash pattern \<open>(d, gap d)\<close> shifted by the offset \<open>o\<close> shows,
  from its start, a dash of the length \<open>d - o\<close>: the sweep of the gauge.
\<close>

definition sweep :: "orb_view \<Rightarrow> jsnum option" where
  "sweep v = (case arc v of None \<Rightarrow> None | Some (d, off) \<Rightarrow> Some (js_sub d off))"

section \<open>The batch view: one card per level\<close>

text \<open>
  What the cards read of a \<^verbatim>\<open>BatchResult\<close>: the breakdown object (level to count) and
  the total, called \<^verbatim>\<open>total_patients\<close> in \<^verbatim>\<open>src/Dashboard_App.tsx\<close> and
  \<^verbatim>\<open>total_residents\<close> in the resident variant. A field the server left out is \<open>None\<close>.
\<close>

record BatchResult =
  alert_breakdown :: "(string \<times> jsnum) list option"
  total_patients :: "jsnum option"

record card =
  card_style :: "token option"
  card_count :: jsnum
  card_pct :: string

text \<open>\<^verbatim>\<open>const breakdown = result?.alert_breakdown || {};\<close>\<close>

definition breakdown :: "BatchResult \<Rightarrow> (string \<times> jsnum) list" where
  "breakdown result = (case alert_breakdown result of None \<Rightarrow> [] | Some b \<Rightarrow> b)"

text \<open>\<^verbatim>\<open>const count = breakdown[lvl] || 0;\<close>\<close>

definition count_of :: "BatchResult \<Rightarrow> string \<Rightarrow> jsnum" where
  "count_of result lvl = num_or (map_of (breakdown result) lvl) (Num 0)"

text \<open>
  \<^verbatim>\<open>const pct = result.total_patients
     ? (count / result.total_patients * 100).toFixed(0) : 0;\<close>
  and the card shows \<^verbatim>\<open>{pct}%\<close>; the function gives the text before the sign.
\<close>

definition pct_text :: "BatchResult \<Rightarrow> string \<Rightarrow> string" where
  "pct_text result lvl =
     (case total_patients result of
        None \<Rightarrow> ''0''
      | Some t \<Rightarrow>
          if truthy_num t
          then toFixed0 (js_mul (js_div (count_of result lvl) t) (Num 100))
          else ''0'')"

text \<open>
  The resident variant:
  \<^verbatim>\<open>const total = result.total_residents || 1;
  const pct = Math.round(count / total * 100);\<close>
\<close>

definition pct_text_pcna :: "BatchResult \<Rightarrow> string \<Rightarrow> string" where
  "pct_text_pcna result lvl =
     show_rounded (Math_round
       (js_mul (js_div (count_of result lvl) (num_or (total_patients result) (Num 1))) (Num 100)))"

text \<open>\<^verbatim>\<open>{result && ( ... levels.map(lvl => ...) ... )}\<close>\<close>

definition batch_cards :: "BatchResult option \<Rightarrow> card list" where
  "batch_cards result =
     (case result of
        None \<Rightarrow> []
      | Some r \<Rightarrow>
          map (\<lambda>lvl. \<lparr>card_style = risk (Some lvl), card_count = count_of r lvl,
                       card_pct = pct_text r lvl\<rparr>) levels)"

definition batch_cards_pcna :: "BatchResult option \<Rightarrow> card list" where
  "batch_cards_pcna result =
     (case result of
        None \<Rightarrow> []
      | Some r \<Rightarrow>
          map (\<lambda>lvl. \<lparr>card_style = risk_pcna (Some lvl), card_count = count_of r lvl,
                       card_pct = pct_text_pcna r lvl\<rparr>) levels)"

section \<open>Strings to numbers\<close>

text \<open>
  The white space that \<^verbatim>\<open>parseFloat\<close> and \<^verbatim>\<open>Number\<close> skip: the ASCII characters and,
  in UTF-8, U+00A0, U+1680, U+2000 to U+200A, U+2028, U+2029, U+202F, U+205F, U+3000
  and U+FEFF.
\<close>

definition ws1 :: "char \<Rightarrow> bool" where
  "ws1 a = (a \<in> set [CHR 0x09, CHR 0x0A, CHR 0x0B, CHR 0x0C, CHR 0x0D, CHR 0x20])"

definition ws2 :: "char \<Rightarrow> char \<Rightarrow> bool" where
  "ws2 a b = (a = CHR 0xC2 \<and> b = CHR 0xA0)"

definition ws3 :: "char \<Rightarrow> char \<Rightarrow> char \<Rightarrow> bool" where
  "ws3 a b c =
     ((a = CHR 0xE1 \<and> b = CHR 0x9A \<and> c = CHR 0x80) \<or>
      (a = CHR 0xE2 \<and> b = CHR 0x80 \<and>
         c \<in> set [CHR 0x80, CHR 0x81, CHR 0x82, CHR 0x83, CHR 0x84, CHR 0x85, CHR 0x86,
                  CHR 0x87, CHR 0x88, CHR 0x89, CHR 0x8A, CHR 0xA8, CHR 0xA9, CHR 0xAF]) \<or>
      (a = CHR 0xE2 \<and> b = CHR 0x81 \<and> c = CHR 0x9F) \<or>
      (a = CHR 0xE3 \<and> b = CHR 0x80 \<and> c = CHR 0x80) \<or>
      (a = CHR 0xEF \<and> b = CHR 0xBB \<and> c = CHR 0xBF))"

fun trim_start :: "string \<Rightarrow> string" where
  "trim_start [] = []"
| "trim_start [a] = (if ws1 a then [] else [a])"
| "trim_start [a, b] =
     (if ws1 a then trim_start [b] else if ws2 a b then [] else [a, b])"
| "trim_start (a # b # c # s) =
     (if ws1 a then trim_start (b # c # s)
      else if ws2 a b then trim_start (c # s)
      else if ws3 a b c then trim_start s
      else a # b # c # s)"

fun trim_end :: "string \<Rightarrow> string" where
  "trim_end [] = []"
| "trim_end (a # s) = (if trim_start (a # s) = [] then [] else a # trim_end s)"

definition is_digit :: "char \<Rightarrow> bool" where
  "is_digit c = (c \<in> set ''0123456789'')"

definition digit_val :: "string \<Rightarrow> char \<Rightarrow> nat" where
  "digit_val alphabet c = length (takeWhile (\<lambda>d. d \<noteq> c) alphabet)"

definition digits_value :: "nat \<Rightarrow> string \<Rightarrow> string \<Rightarrow> nat" where
  "digits_value radix alphabet ds = foldl (\<lambda>acc c. radix * acc + digit_val alphabet c) 0 ds"

definition decimal :: "string \<Rightarrow> nat" where
  "decimal = digits_value 10 ''0123456789''"

text \<open>The mathematical value \<open>m \<times> 10\<^sup>e\<close> of a decimal literal.\<close>

definition scale :: "nat \<Rightarrow> int \<Rightarrow> real" where
  "scale m e = (if 0 \<le> e then of_nat m * 10 ^ nat e else of_nat m / 10 ^ nat (- e))"

text \<open>
  An exponent part at the head of the string, \<^verbatim>\<open>e\<close> or \<^verbatim>\<open>E\<close>, a sign if any, and at
  least one digit: its value and the rest. With no exponent part the value is 0 and
  nothing is consumed.
\<close>

definition exponent_part :: "string \<Rightarrow> int \<times> string" where
  "exponent_part s =
     (case s of
        [] \<Rightarrow> (0, s)
      | e # r \<Rightarrow>
          if e = CHR ''e'' \<or> e = CHR ''E'' then
            (let neg = (case r of [] \<Rightarrow> False | c # _ \<Rightarrow> c = CHR ''-'');
                 r1 = (case r of [] \<Rightarrow> r
                       | c # r' \<Rightarrow> if c = CHR ''+'' \<or> c = CHR ''-'' then r' else r);
                 ds = takeWhile is_digit r1
             in if ds = [] then (0, s)
                else ((if neg then - int (decimal ds) else int (decimal ds)),
                      dropWhile is_digit r1))
          else (0, s))"

text \<open>
  The longest prefix that is a \<^verbatim>\<open>StrUnsignedDecimalLiteral\<close>: \<^verbatim>\<open>Infinity\<close>, or digits
  with an optional fraction and exponent, or a fraction that starts with the point.
  \<open>None\<close> when no prefix is one.
\<close>

definition unsigned_literal :: "string \<Rightarrow> (jsnum \<times> string) option" where
  "unsigned_literal s =
     (if take 8 s = ''Infinity'' then Some (PInf, drop 8 s)
      else
        (let ip = takeWhile is_digit s; r1 = dropWhile is_digit s
         in case r1 of
              [] \<Rightarrow> if ip = [] then None else Some (Num (scale (decimal ip) 0), [])
            | c # r2 \<Rightarrow>
                if c = CHR ''.'' then
                  (let fp = takeWhile is_digit r2; r3 = dropWhile is_digit r2
                   in if ip = [] \<and> fp = [] then None
                      else (case exponent_part r3 of
                              (e, r4) \<Rightarrow>
                                Some (Num (scale (decimal (ip @ fp)) (e - int (length fp))), r4)))
                else if ip = [] then None
                else (case exponent_part r1 of
                        (e, r4) \<Rightarrow> Some (Num (scale (decimal ip) e), r4))))"

fun negate :: "jsnum \<Rightarrow> jsnum" where
  "negate NaN = NaN"
| "negate (Num x) = Num (- x)"
| "negate PInf = NInf"
| "negate NInf = PInf"

definition signed_literal :: "string \<Rightarrow> (jsnum \<times> string) option" where
  "signed_literal s =
     (case s of
        [] \<Rightarrow> None
      | c # r \<Rightarrow>
          if c = CHR ''+'' then unsigned_literal r
          else if c = CHR ''-'' then map_option (\<lambda>(n, rest). (negate n, rest)) (unsigned_literal r)
          else unsigned_literal s)"

text \<open>\<^verbatim>\<open>parseFloat(s)\<close>: skip leading white space, read the longest literal, ignore the rest.\<close>

definition parseFloat :: "string \<Rightarrow> jsnum" where
  "parseFloat s = (case signed_literal (trim_start s) of None \<Rightarrow> NaN | Some (n, _) \<Rightarrow> n)"

text \<open>
  \<^verbatim>\<open>+s\<close>, that is \<^verbatim>\<open>Number(s)\<close>: the whole string, white space at both ends apart, must
  be a literal; the empty string is 0; \<^verbatim>\<open>0x\<close>, \<^verbatim>\<open>0o\<close> and \<^verbatim>\<open>0b\<close> literals count.
\<close>

definition radix_literal :: "string \<Rightarrow> jsnum option" where
  "radix_literal t =
     (case t of
        z # x # ds \<Rightarrow>
          if z = CHR ''0'' \<and> ds \<noteq> [] then
            (if x \<in> set ''xX'' \<and> (\<forall>c \<in> set ds. c \<in> set ''0123456789abcdefABCDEF'') then
               Some (Num (of_nat (foldl (\<lambda>acc c. 16 * acc +
                  (if c \<in> set ''0123456789abcdef'' then digit_val ''0123456789abcdef'' c
                   else digit_val ''0123456789ABCDEF'' c)) 0 ds)))
             else if x \<in> set ''oO'' \<and> (\<forall>c \<in> set ds. c \<in> set ''01234567'') then
               Some (Num (of_nat (digits_value 8 ''01234567'' ds)))
             else if x \<in> set ''bB'' \<and> (\<forall>c \<in> set ds. c \<in> set ''01'') then
               Some (Num (of_nat (digits_value 2 ''01'' ds)))
             else None)
          else None
      | _ \<Rightarrow> None)"

definition to_number :: "string \<Rightarrow> jsnum" where
  "to_number s =
     (let t = trim_end (trim_start s)
      in if t = [] then Num 0
         else (case radix_literal t of
                 Some n \<Rightarrow> n
               | None \<Rightarrow>
                   (case signed_literal t of
                      Some (n, []) \<Rightarrow> n
                    | _ \<Rightarrow> NaN)))"

section \<open>The assessment form\<close>

text \<open>
  A form is an object from field names to numbers or strings, kept as a list of
  properties in the order of the object literal.
\<close>

datatype fieldval = NumV jsnum | StrV string

type_synonym form = "(string \<times> fieldval) list"

text \<open>\<^verbatim>\<open>{ ...f, [name]: v }\<close>: the property is replaced in place, or added at the end.\<close>

definition obj_set :: "form \<Rightarrow> string \<Rightarrow> fieldval \<Rightarrow> form" where
  "obj_set f name v =
     (if name \<in> set (map fst f)
      then map (\<lambda>(k, x). if k = name then (k, v) else (k, x)) f
      else f @ [(name, v)])"

text \<open>\<^verbatim>\<open>{ ...base, k1: v1, k2: v2, ... }\<close>\<close>

definition spread_with :: "form \<Rightarrow> form \<Rightarrow> form" where
  "spread_with base props = foldl (\<lambda>acc (k, v). obj_set acc k v) base props"

definition num :: "real \<Rightarrow> fieldval" where
  "num x = NumV (Num x)"

subsection \<open>\<^verbatim>\<open>src/Dashboard_App.tsx\<close>: the patient form\<close>

definition DEFAULT :: form where
  "DEFAULT =
     [(''age'', num 72), (''heart_rate'', num 80), (''systolic_bp'', num 118),
      (''oxygen_saturation'', num 95.5), (''temperature_c'', num 37.2),
      (''respiratory_rate'', num 17), (''pain_score'', num 3.5),
      (''consciousness_level'', StrV ''Alert''), (''mobility_score'', num 2),
      (''hour_of_day'', num 14), (''days_in_hospital'', num 7), (''prior_episodes'', num 1),
      (''medications_count'', num 6), (''days_since_last_episode'', num 10)]"

definition PRESETS :: "(string \<times> form) list" where
  "PRESETS =
     [(''stable'', spread_with DEFAULT
         [(''heart_rate'', num 68), (''oxygen_saturation'', num 98), (''respiratory_rate'', num 13),
          (''pain_score'', num 1), (''consciousness_level'', StrV ''Alert''),
          (''prior_episodes'', num 0), (''systolic_bp'', num 130)]),
      (''medium'', spread_with DEFAULT
         [(''heart_rate'', num 92), (''oxygen_saturation'', num 93), (''respiratory_rate'', num 23),
          (''pain_score'', num 6), (''consciousness_level'', StrV ''Confused''),
          (''hour_of_day'', num 3), (''prior_episodes'', num 2), (''systolic_bp'', num 102)]),
      (''urgent'', spread_with DEFAULT
         [(''age'', num 87), (''heart_rate'', num 118), (''oxygen_saturation'', num 86),
          (''respiratory_rate'', num 34), (''pain_score'', num 9),
          (''consciousness_level'', StrV ''Drowsy''), (''mobility_score'', num 3),
          (''hour_of_day'', num 2), (''days_in_hospital'', num 48), (''prior_episodes'', num 5),
          (''days_since_last_episode'', num 1), (''systolic_bp'', num 84),
          (''temperature_c'', num 39.1)])]"

subsection \<open>The resident variant: the PCNA form\<close>

definition DEFAULT_pcna :: form where
  "DEFAULT_pcna =
     [(''age'', num 78), (''gender'', num 2),
      (''incontinence'', num 0), (''catheter'', num 0), (''wound_history'', num 0),
      (''pressure_ulcer_history'', num 0),
      (''falls_count'', num 0), (''infections_count'', num 0),
      (''medical_history_complexity'', num 2),
      (''abbey_pain_latest'', num 0), (''abbey_pain_max'', num 0), (''abbey_pain_trend'', num 0),
      (''must_latest'', num 0), (''must_max'', num 0), (''weight_loss_kg'', num 0),
      (''weight_loss_pct'', num 0),
      (''barthel_latest'', num 90), (''barthel_min'', num 88), (''barthel_trend'', num 0),
      (''frase_latest'', num 3), (''frase_max'', num 4), (''frailty_latest'', num 3),
      (''frailty_max'', num 3),
      (''mts_latest'', num 9), (''mts_trend'', num 0), (''oral_latest'', num 46),
      (''oral_trend'', num 0),
      (''note_count_total'', num 4), (''note_concern_count'', num 0),
      (''note_concern_density'', num 0),
      (''priority_note_count'', num 0), (''night_note_count'', num 1)]"

text \<open>Each entry: the key, the label of the button, the form.\<close>

definition PRESETS_pcna :: "(string \<times> string \<times> form) list" where
  "PRESETS_pcna =
     [(''stable'', ''Stable'', spread_with DEFAULT_pcna
         [(''incontinence'', num 0), (''catheter'', num 0), (''falls_count'', num 0),
          (''infections_count'', num 0), (''medical_history_complexity'', num 1),
          (''abbey_pain_latest'', num 0), (''abbey_pain_max'', num 1), (''abbey_pain_trend'', num 0),
          (''must_latest'', num 0), (''must_max'', num 0), (''weight_loss_kg'', num 0.5),
          (''weight_loss_pct'', num 0.6),
          (''barthel_latest'', num 98), (''barthel_min'', num 97), (''barthel_trend'', num 0),
          (''frase_latest'', num 1), (''frase_max'', num 2), (''frailty_latest'', num 2),
          (''frailty_max'', num 2),
          (''mts_latest'', num 10), (''mts_trend'', num 0), (''oral_latest'', num 48),
          (''oral_trend'', num 0),
          (''note_concern_count'', num 0), (''note_concern_density'', num 0),
          (''priority_note_count'', num 0)]),
      (''monitor'', ''Monitor'', spread_with DEFAULT_pcna
         [(''age'', num 82), (''gender'', num 1),
          (''incontinence'', num 1), (''falls_count'', num 1), (''infections_count'', num 1),
          (''medical_history_complexity'', num 3),
          (''abbey_pain_latest'', num 3), (''abbey_pain_max'', num 5), (''abbey_pain_trend'', num 2),
          (''must_latest'', num 1), (''must_max'', num 2), (''weight_loss_kg'', num (- 2.5)),
          (''weight_loss_pct'', num (- 3.1)),
          (''barthel_latest'', num 78), (''barthel_min'', num 72), (''barthel_trend'', num (- 8)),
          (''frase_latest'', num 7), (''frase_max'', num 8), (''frailty_latest'', num 5),
          (''frailty_max'', num 5),
          (''mts_latest'', num 7), (''mts_trend'', num (- 1)), (''oral_latest'', num 40),
          (''oral_trend'', num (- 4)),
          (''note_concern_count'', num 5), (''note_concern_density'', num 1.2),
          (''priority_note_count'', num 1), (''night_note_count'', num 2)]),
      (''urgent'', ''Urgent'', spread_with DEFAULT_pcna
         [(''age'', num 91), (''gender'', num 2),
          (''incontinence'', num 1), (''catheter'', num 1), (''wound_history'', num 1),
          (''pressure_ulcer_history'', num 1),
          (''falls_count'', num 3), (''infections_count'', num 2),
          (''medical_history_complexity'', num 5),
          (''abbey_pain_latest'', num 8), (''abbey_pain_max'', num 11), (''abbey_pain_trend'', num 5),
          (''must_latest'', num 3), (''must_max'', num 4), (''weight_loss_kg'', num (- 8.0)),
          (''weight_loss_pct'', num (- 10.5)),
          (''barthel_latest'', num 18), (''barthel_min'', num 12), (''barthel_trend'', num (- 35)),
          (''frase_latest'', num 14), (''frase_max'', num 16), (''frailty_latest'', num 8),
          (''frailty_max'', num 8),
          (''mts_latest'', num 1), (''mts_trend'', num (- 5)), (''oral_latest'', num 22),
          (''oral_trend'', num (- 14)),
          (''note_count_total'', num 12), (''note_concern_count'', num 28),
          (''note_concern_density'', num 2.3),
          (''priority_note_count'', num 4), (''night_note_count'', num 5)])]"

subsection \<open>The change handler\<close>

text \<open>What the handler reads of the event: \<^verbatim>\<open>const { name, value, type } = e.target;\<close>\<close>

record change_event =
  target_name :: string
  target_value :: string
  target_type :: string

text \<open>
  \<^verbatim>\<open>setForm(f => ({ ...f, [name]: type === "number" ? parseFloat(value) || 0 : value }));\<close>
\<close>

definition change :: "change_event \<Rightarrow> form \<Rightarrow> form" where
  "change e f =
     obj_set f (target_name e)
       (if target_type e = ''number'' then NumV (num_or (Some (parseFloat (target_value e))) (Num 0))
        else StrV (target_value e))"

text \<open>
  The resident variant:
  \<^verbatim>\<open>setForm(f => ({ ...f, [name]:
     type === "number" || !isNaN(+value) ? parseFloat(value) || 0 : value }));\<close>
\<close>

definition change_pcna :: "change_event \<Rightarrow> form \<Rightarrow> form" where
  "change_pcna e f =
     obj_set f (target_name e)
       (if target_type e = ''number'' \<or> to_number (target_value e) \<noteq> NaN
        then NumV (num_or (Some (parseFloat (target_value e))) (Num 0))
        else StrV (target_value e))"

text \<open>\<^verbatim>\<open>const toggleBool = (name, val) => setForm(f => ({ ...f, [name]: val }));\<close>\<close>

definition toggleBool :: "string \<Rightarrow> jsnum \<Rightarrow> form \<Rightarrow> form" where
  "toggleBool nm val f = obj_set f nm (NumV val)"

subsection \<open>The payload of a submission\<close>

text \<open>
  \<^verbatim>\<open>const payload = { ...form };
  ([ "age", ... ] as const).forEach(k => { payload[k] = parseFloat(String(payload[k])); });\<close>

  \<^verbatim>\<open>String\<close> of a number followed by \<^verbatim>\<open>parseFloat\<close> gives the number back, and
  not-a-number for not-a-number; \<^verbatim>\<open>String\<close> of a string is the string, and of a missing
  property the text \<^verbatim>\<open>undefined\<close>. The resident variant sends the form as it is.
\<close>

definition numeric_keys :: "string list" where
  "numeric_keys = [''age'', ''heart_rate'', ''systolic_bp'', ''oxygen_saturation'',
     ''temperature_c'', ''respiratory_rate'', ''pain_score'', ''mobility_score'',
     ''hour_of_day'', ''days_in_hospital'', ''prior_episodes'', ''medications_count'',
     ''days_since_last_episode'']"

fun reparse :: "fieldval option \<Rightarrow> jsnum" where
  "reparse None = parseFloat ''undefined''"
| "reparse (Some (StrV s)) = parseFloat s"
| "reparse (Some (NumV x)) = x"

definition payload :: "form \<Rightarrow> form" where
  "payload f = foldl (\<lambda>p k. obj_set p k (NumV (reparse (map_of p k)))) f numeric_keys"

definition payload_pcna :: "form \<Rightarrow> form" where
  "payload_pcna f = f"

section \<open>The remote client\<close>

text \<open>
  What \<^verbatim>\<open>fetch\<close> and \<^verbatim>\<open>r.json()\<close> reject with are error objects (\<^verbatim>\<open>TypeError\<close>,
  \<^verbatim>\<open>SyntaxError\<close>, \<^verbatim>\<open>DOMException\<close>); the handler reads their \<^verbatim>\<open>message\<close>, which is
  \<open>None\<close> when the object has none.
\<close>

datatype thrown = Thrown (message: "string option")

text \<open>
  A value of the type \<^verbatim>\<open>T & { __error?: string }\<close>: the \<^verbatim>\<open>__error\<close> property if there is
  one, and the properties of \<^verbatim>\<open>T\<close>, which are \<open>None\<close> in the object \<^verbatim>\<open>{ __error: ... }\<close>
  that the client builds itself.
\<close>

record 'a reply =
  error_field :: "string option"
  content :: "'a option"

text \<open>
  What the network does with a request: the promise of \<^verbatim>\<open>fetch\<close> is rejected, or it
  gives a response with a status, whose body \<^verbatim>\<open>r.json()\<close> parses or rejects.
\<close>

datatype 'a fetch_outcome = Rejected thrown | Response nat "thrown + 'a reply"

text \<open>
  The address of a request. The stored base address is read at every call; the constant
  is computed once, from what the storage held when the module was loaded.

  \<^verbatim>\<open>const API_BASE =
    (typeof window !== "undefined" && localStorage.getItem("api_base")) ||
    "https://healthcare-ai-backend-qcr3.onrender.com";
  ...
  const base = localStorage.getItem("api_base") || API_BASE;
  ... fetch(base + "/api" + path, opts)\<close>
\<close>

definition API_BASE :: "string option \<Rightarrow> string" where
  "API_BASE stored_at_load =
     (case stored_at_load of
        None \<Rightarrow> ''https://healthcare-ai-backend-qcr3.onrender.com''
      | Some u \<Rightarrow> if u \<noteq> [] then u else ''https://healthcare-ai-backend-qcr3.onrender.com'')"

definition api_url :: "string option \<Rightarrow> string option \<Rightarrow> string \<Rightarrow> string" where
  "api_url stored_at_load stored path =
     (case stored of
        None \<Rightarrow> API_BASE stored_at_load
      | Some u \<Rightarrow> if u \<noteq> [] then u else API_BASE stored_at_load) @ ''/api'' @ path"

text \<open>\<^verbatim>\<open>r.ok\<close>: the status is in the range 200 to 299.\<close>

definition ok :: "nat \<Rightarrow> bool" where
  "ok status = (200 \<le> status \<and> status \<le> 299)"

text \<open>
  \<^verbatim>\<open>const r = await fetch(base + "/api" + path, opts);
  if (!r.ok) throw new Error(`HTTP ${r.status}`);
  return await r.json();\<close>
\<close>

definition api_try :: "'a fetch_outcome \<Rightarrow> thrown + 'a reply" where
  "api_try outcome =
     (case outcome of
        Rejected e \<Rightarrow> Inl e
      | Response status body \<Rightarrow>
          if \<not> ok status then Inl (Thrown (Some (''HTTP '' @ show_nat status)))
          else body)"

text \<open>Truthiness of a string that may be missing: the empty string is falsy.\<close>

definition truthy_str :: "string option \<Rightarrow> bool" where
  "truthy_str v = (case v of None \<Rightarrow> False | Some t \<Rightarrow> t \<noteq> [])"

text \<open>
  \<^verbatim>\<open>catch (e) { return { __error: (e as Error).message || "Server unreachable" }; }\<close>
\<close>

definition api_catch :: "thrown \<Rightarrow> 'a reply" where
  "api_catch e =
     \<lparr>error_field =
        Some (case message e of
                None \<Rightarrow> ''Server unreachable''
              | Some m \<Rightarrow> if m \<noteq> [] then m else ''Server unreachable''),
      content = None\<rparr>"

text \<open>The whole function: \<open>Inl\<close> would be an exception that leaves \<^verbatim>\<open>api\<close>.\<close>

definition api :: "'a fetch_outcome \<Rightarrow> thrown + 'a reply" where
  "api outcome = (case api_try outcome of Inl e \<Rightarrow> Inr (api_catch e) | Inr v \<Rightarrow> Inr v)"

text \<open>The three failures of a request.\<close>

definition failing :: "'a fetch_outcome \<Rightarrow> bool" where
  "failing outcome =
     (case outcome of
        Rejected e \<Rightarrow> True
      | Response status body \<Rightarrow> \<not> ok status \<or> isl body)"

section \<open>The single assessment view\<close>

text \<open>
  The state of the components that send a request:
  \<^verbatim>\<open>const [result, setResult] = useState<PredictionResult | null>(null);
  const [loading, setLoading] = useState(false);
  const [error, setError] = useState<string | null>(null);\<close>
\<close>

record loading_state =
  loading :: bool

record 'a request_state = loading_state +
  result :: "'a reply option"
  error :: "string option"

record 'a single_state = "'a request_state" +
  form :: form

definition SinglePatient :: "'a single_state" where
  "SinglePatient = \<lparr>loading = False, result = None, error = None, form = DEFAULT\<rparr>"

definition SingleResident :: "'a single_state" where
  "SingleResident = \<lparr>loading = False, result = None, error = None, form = DEFAULT_pcna\<rparr>"

text \<open>
  \<^verbatim>\<open>const predict = async () => {
    setLoading(true); setError(null);
    ... const res = await api<PredictionResult>("/predict/single", { ... });
    setLoading(false);
    if (res.__error) setError(res.__error);
    else setResult(res);
  };\<close>

  The function runs up to the \<^verbatim>\<open>await\<close>, where it has the body of the request, and
  goes on when the client returns.
\<close>

definition predict_start :: "'a single_state \<Rightarrow> 'a single_state \<times> form" where
  "predict_start s = (s\<lparr>loading := True, error := None\<rparr>, payload (form s))"

definition predict_start_pcna :: "'a single_state \<Rightarrow> 'a single_state \<times> form" where
  "predict_start_pcna s = (s\<lparr>loading := True, error := None\<rparr>, payload_pcna (form s))"

definition predict_finish :: "'a reply \<Rightarrow> 'a single_state \<Rightarrow> 'a single_state" where
  "predict_finish res s =
     (if truthy_str (error_field res)
      then s\<lparr>loading := False, error := error_field res\<rparr>
      else s\<lparr>loading := False, result := Some res\<rparr>)"

text \<open>A submission from the click to its completion, with nothing in between.\<close>

definition predict :: "'a fetch_outcome \<Rightarrow> 'a single_state \<Rightarrow> thrown + 'a single_state" where
  "predict outcome s =
     (case api outcome of
        Inl e \<Rightarrow> Inl e
      | Inr res \<Rightarrow> Inr (predict_finish res (fst (predict_start s))))"

definition predict_pcna :: "'a fetch_outcome \<Rightarrow> 'a single_state \<Rightarrow> thrown + 'a single_state" where
  "predict_pcna outcome s =
     (case api outcome of
        Inl e \<Rightarrow> Inl e
      | Inr res \<Rightarrow> Inr (predict_finish res (fst (predict_start_pcna s))))"

text \<open>
  The preset buttons, one for each key of \<^verbatim>\<open>PRESETS\<close>:
  \<^verbatim>\<open>onClick={() => { setForm(PRESETS[p]); setResult(null); }}\<close>
  The result is \<open>None\<close> for a name that has no button.
\<close>

definition applyPreset :: "string \<Rightarrow> 'a single_state \<Rightarrow> 'a single_state option" where
  "applyPreset p s =
     (case map_of PRESETS p of
        None \<Rightarrow> None
      | Some f \<Rightarrow> Some (s\<lparr>form := f, result := None\<rparr>))"

text \<open>
  The resident variant:
  \<^verbatim>\<open>onClick={() => { setForm(PRESETS[key].form); setResult(null); setError(null); }}\<close>
\<close>

definition applyPreset_pcna :: "string \<Rightarrow> 'a single_state \<Rightarrow> 'a single_state option" where
  "applyPreset_pcna key s =
     (case map_of PRESETS_pcna key of
        None \<Rightarrow> None
      | Some (lbl, f) \<Rightarrow> Some (s\<lparr>form := f, result := None, error := None\<rparr>))"

section \<open>The batch view: running a batch\<close>

text \<open>
  \<^verbatim>\<open>const run = async () => {
    if (!file) return;
    setLoading(true); setError(null); setResult(null);
    ... const res = await api<BatchResult>("/predict/batch", { method: "POST", body: fd });
    setLoading(false);
    if (res.__error) setError(res.__error);
    else setResult(res);
  };\<close>

  The argument \<open>chosen\<close> says whether a file is selected (in the resident variant,
  whether the folder path has more than white space).
\<close>

definition run_start :: "bool \<Rightarrow> 'a request_state \<Rightarrow> 'a request_state" where
  "run_start chosen s =
     (if \<not> chosen then s else s\<lparr>loading := True, error := None, result := None\<rparr>)"

definition run_finish :: "'a reply \<Rightarrow> 'a request_state \<Rightarrow> 'a request_state" where
  "run_finish res s =
     (if truthy_str (error_field res)
      then s\<lparr>loading := False, error := error_field res\<rparr>
      else s\<lparr>loading := False, result := Some res\<rparr>)"

section \<open>The live view\<close>

text \<open>
  The body of the current-alerts response, \<^verbatim>\<open>{ patients?: PatientSummary[] }\<close>; the
  resident variant calls the field and the state \<^verbatim>\<open>residents\<close> and is the same
  otherwise.
\<close>

record 'p alerts =
  res_patients :: "'p list option"

text \<open>
  A repeating timer of the browser: its identifier, its period and the milliseconds until
  it fires next.
\<close>

record timer =
  timer_id :: nat
  period :: nat
  due_in :: nat

text \<open>
  The state of the component, followed by what it touches of the browser: the live timers,
  the identifier that \<^verbatim>\<open>setInterval\<close> gives next (identifiers are greater than zero), the
  clock in milliseconds, and the number of requests for the current alerts sent so far.

  \<^verbatim>\<open>const [patients, setPatients] = useState<PatientSummary[]>([]);
  const [loading, setLoading] = useState(false);
  const [lastRefresh, setLastRefresh] = useState<Date | null>(null);
  const [autoRefresh, setAutoRefresh] = useState(false);
  const [filter, setFilter] = useState<FilterLevel>("ALL");
  const intervalRef = useRef<ReturnType<typeof setInterval> | null>(null);\<close>
\<close>

record 'p live_state = loading_state +
  patients :: "'p list"
  lastRefresh :: "nat option"
  autoRefresh :: bool
  filter_level :: string
  intervalRef :: "nat option"
  timers :: "timer list"
  next_timer :: nat
  clock :: nat
  requests :: nat

definition setInterval :: "nat \<Rightarrow> 'p live_state \<Rightarrow> 'p live_state \<times> nat" where
  "setInterval ms s =
     (s\<lparr>timers := timers s @ [\<lparr>timer_id = next_timer s, period = ms, due_in = ms\<rparr>],
        next_timer := next_timer s + 1\<rparr>,
      next_timer s)"

definition clearInterval :: "nat \<Rightarrow> 'p live_state \<Rightarrow> 'p live_state" where
  "clearInterval i s = s\<lparr>timers := filter (\<lambda>t. timer_id t \<noteq> i) (timers s)\<rparr>"

text \<open>
  \<^verbatim>\<open>const fetchAlerts = useCallback(async () => {
    setLoading(true);
    const res = await api<{ patients?: PatientSummary[] }>("/alerts/current");
    setLoading(false);
    if (!res.__error && res.patients) {
      setPatients(res.patients);
      setLastRefresh(new Date());
    }
  }, []);\<close>

  The call runs up to the \<^verbatim>\<open>await\<close> and sends the request; the function goes on when
  the client returns. An array is truthy, also when it is empty.
\<close>

definition fetchAlerts_call :: "'p live_state \<Rightarrow> 'p live_state" where
  "fetchAlerts_call s = s\<lparr>loading := True, requests := requests s + 1\<rparr>"

definition fetchAlerts_resume :: "'p alerts reply \<Rightarrow> 'p live_state \<Rightarrow> 'p live_state" where
  "fetchAlerts_resume res s =
     (case (if truthy_str (error_field res) then None
            else (case content res of None \<Rightarrow> None | Some body \<Rightarrow> res_patients body)) of
        None \<Rightarrow> s\<lparr>loading := False\<rparr>
      | Some ps \<Rightarrow> s\<lparr>loading := False, patients := ps, lastRefresh := Some (clock s)\<rparr>)"

text \<open>A fetch from the call to its completion, with nothing in between.\<close>

definition fetchAlerts :: "'p alerts fetch_outcome \<Rightarrow> 'p live_state \<Rightarrow> thrown + 'p live_state" where
  "fetchAlerts outcome s =
     (case api outcome of
        Inl e \<Rightarrow> Inl e
      | Inr res \<Rightarrow> Inr (fetchAlerts_resume res (fetchAlerts_call s)))"

text \<open>
  \<^verbatim>\<open>useEffect(() => {
    if (autoRefresh) {
      intervalRef.current = setInterval(fetchAlerts, 60000);
    } else {
      if (intervalRef.current) clearInterval(intervalRef.current);
    }
    return () => {
      if (intervalRef.current) clearInterval(intervalRef.current);
    };
  }, [autoRefresh, fetchAlerts]);\<close>

  \<open>clear_ref\<close> is the statement \<^verbatim>\<open>if (intervalRef.current) clearInterval(intervalRef.current)\<close>,
  \<open>auto_effect\<close> the body of the effect and \<open>auto_cleanup\<close> the function it returns.
\<close>

definition clear_ref :: "'p live_state \<Rightarrow> 'p live_state" where
  "clear_ref s =
     (case intervalRef s of
        None \<Rightarrow> s
      | Some i \<Rightarrow> if i \<noteq> 0 then clearInterval i s else s)"

definition auto_effect :: "'p live_state \<Rightarrow> 'p live_state" where
  "auto_effect s =
     (if autoRefresh s
      then (case setInterval 60000 s of (s', i) \<Rightarrow> s'\<lparr>intervalRef := Some i\<rparr>)
      else clear_ref s)"

definition auto_cleanup :: "'p live_state \<Rightarrow> 'p live_state" where
  "auto_cleanup s = clear_ref s"

text \<open>
  Mounting at the time \<open>t\<close>: the initial state, then the two effects in their order,
  \<^verbatim>\<open>useEffect(() => { fetchAlerts(); }, [fetchAlerts]);\<close> and the one above.
\<close>

definition mount :: "nat \<Rightarrow> 'p live_state" where
  "mount t =
     auto_effect (fetchAlerts_call
       \<lparr>loading = False, patients = [], lastRefresh = None, autoRefresh = False,
        filter_level = ''ALL'', intervalRef = None, timers = [], next_timer = 1,
        clock = t, requests = 0\<rparr>)"

text \<open>
  A click on the switch, \<^verbatim>\<open>setAutoRefresh(v => !v)\<close>: a dependency of the effect has
  changed, so the cleanup of the last run is called and then the effect. The callback
  \<^verbatim>\<open>fetchAlerts\<close> has no dependencies and never changes.
\<close>

definition toggle :: "'p live_state \<Rightarrow> 'p live_state" where
  "toggle s = auto_effect (auto_cleanup (s\<lparr>autoRefresh := \<not> autoRefresh s\<rparr>))"

text \<open>Unmounting calls the cleanup.\<close>

definition unmount :: "'p live_state \<Rightarrow> 'p live_state" where
  "unmount s = auto_cleanup s"

text \<open>
  One millisecond passes: a timer that is due calls \<^verbatim>\<open>fetchAlerts\<close> and starts its
  period again.
\<close>

definition fires :: "timer \<Rightarrow> bool" where
  "fires t = (due_in t \<le> 1)"

definition step_timer :: "timer \<Rightarrow> timer" where
  "step_timer t = (if fires t then t\<lparr>due_in := period t\<rparr> else t\<lparr>due_in := due_in t - 1\<rparr>)"

definition tick :: "'p live_state \<Rightarrow> 'p live_state" where
  "tick s =
     (fetchAlerts_call ^^ length (filter fires (timers s)))
       (s\<lparr>clock := clock s + 1, timers := map step_timer (timers s)\<rparr>)"

fun advance :: "nat \<Rightarrow> 'p live_state \<Rightarrow> 'p live_state" where
  "advance 0 s = s"
| "advance (Suc k) s = advance k (tick s)"

text \<open>
  The states of a mounted live view: what the user and the browser can do to it, in any
  order. A response may arrive at any time.
\<close>

inductive reachable :: "'p live_state \<Rightarrow> bool" where
  r_mount: "reachable (mount t)"
| r_toggle: "reachable s \<Longrightarrow> reachable (toggle s)"
| r_tick: "reachable s \<Longrightarrow> reachable (tick s)"
| r_refresh: "reachable s \<Longrightarrow> reachable (fetchAlerts_call s)"
| r_response: "reachable s \<Longrightarrow> reachable (fetchAlerts_resume res s)"
| r_filter: "reachable s \<Longrightarrow> reachable (s\<lparr>filter_level := f\<rparr>)"

section \<open>Results of a prediction\<close>

text \<open>
  What the result panel reads of a \<^verbatim>\<open>PredictionResult\<close> for the gauge, the chip and the
  advice.
\<close>

record PredictionResult =
  risk_score :: jsnum
  alert_level :: string
  action :: string

text \<open>Whether the view holds a result, and whether it holds an error to show.\<close>

definition has_result :: "('a, 'b) request_state_scheme \<Rightarrow> bool" where
  "has_result s = (result s \<noteq> None)"

definition has_error :: "('a, 'b) request_state_scheme \<Rightarrow> bool" where
  "has_error s = truthy_str (error s)"

text \<open>
  While the switch is on there is exactly one live timer, the one the reference holds,
  with the period of 60 seconds; while it is off there is none.
\<close>

definition one_timer :: "'p live_state \<Rightarrow> bool" where
  "one_timer s =
     (if autoRefresh s
      then (\<exists>i d. intervalRef s = Some i \<and> i \<noteq> 0 \<and> 1 \<le> d \<and> d \<le> 60000 \<and>
              timers s = [\<lparr>timer_id = i, period = 60000, due_in = d\<rparr>])
      else timers s = [])"

section \<open>Properties of the style lookup\<close>

lemma risk_known_level:
  "l \<in> set levels \<Longrightarrow> \<exists>st. risk (Some l) = Some (Style st) \<and> label st \<noteq> [] \<and> icon st \<noteq> []"
  by (auto simp: levels_def risk_def risk_in_def member_def T_def
      LOW_style_def MEDIUM_style_def HIGH_style_def URGENT_style_def)

lemma risk_pcna_known_level:
  "l \<in> set levels \<Longrightarrow> \<exists>st. risk_pcna (Some l) = Some (Style st) \<and> label st \<noteq> [] \<and> icon st \<noteq> []"
  by (auto simp: levels_def risk_pcna_def risk_in_def member_def T_pcna_def
      LOW_pcna_def MEDIUM_pcna_def HIGH_pcna_def URGENT_pcna_def)

lemma risk_missing_level:
  "risk None = Some (Style NONE_style)" "risk_pcna None = Some (Style NONE_pcna)"
  by (simp_all add: risk_def risk_pcna_def risk_in_def member_def T_def T_pcna_def
      object_prototype_keys_def)

lemma risk_unknown_key:
  "l \<notin> set (map fst T) \<Longrightarrow> l \<notin> set object_prototype_keys \<Longrightarrow>
   risk (Some l) = Some (Style NONE_style)"
proof -
  assume a: "l \<notin> set (map fst T)" and b: "l \<notin> set object_prototype_keys"
  from a have "map_of T l = None" by (simp add: map_of_eq_None_iff)
  with b have "member T l = None" by (simp add: member_def)
  moreover have "member T ''NONE'' = Some (Style NONE_style)"
    by (simp add: member_def T_def)
  ultimately show ?thesis by (simp add: risk_def risk_in_def)
qed

lemma risk_pcna_unknown_key:
  "l \<notin> set (map fst T_pcna) \<Longrightarrow> l \<notin> set object_prototype_keys \<Longrightarrow>
   risk_pcna (Some l) = Some (Style NONE_pcna)"
proof -
  assume a: "l \<notin> set (map fst T_pcna)" and b: "l \<notin> set object_prototype_keys"
  from a have "map_of T_pcna l = None" by (simp add: map_of_eq_None_iff)
  with b have "member T_pcna l = None" by (simp add: member_def)
  moreover have "member T_pcna ''NONE'' = Some (Style NONE_pcna)"
    by (simp add: member_def T_pcna_def)
  ultimately show ?thesis by (simp add: risk_pcna_def risk_in_def)
qed

lemma NONE_style_nonempty:
  "label NONE_style \<noteq> []" "icon NONE_style \<noteq> []" "label NONE_pcna \<noteq> []" "icon NONE_pcna \<noteq> []"
  by (simp_all add: NONE_style_def NONE_pcna_def)

text \<open>
  C1. The lookup does not send every string that is not one of the four levels to the
  NONE style: the key \<^verbatim>\<open>bg\<close> names a colour of the same table, and the lookup returns
  that colour string, which is no style and has neither label nor icon. A key that every
  object inherits, such as \<^verbatim>\<open>toString\<close>, is found as well.
\<close>

theorem risk_colour_key_is_not_NONE:
  "risk (Some ''bg'') = Some (Colour ''#060a12'') \<and>
   risk (Some ''bg'') \<noteq> Some (Style NONE_style) \<and>
   risk_pcna (Some ''bg'') = Some (Colour ''#04080f'') \<and>
   risk_pcna (Some ''bg'') \<noteq> Some (Style NONE_pcna) \<and>
   risk (Some ''toString'') = Some (Inherited ''toString'')"
  by (simp add: risk_def risk_pcna_def risk_in_def member_def T_def T_pcna_def
      object_prototype_keys_def)

section \<open>Properties of the ring gauge\<close>

lemma circumference_nonneg: "0 \<le> radius \<Longrightarrow> 0 \<le> circumference_of radius"
  by (simp add: circumference_of_def)

lemma sweep_orb_body:
  "sweep (orb_body radius h (Some (Num x))) = Some (Num (x * circumference_of radius))"
  by (simp add: sweep_def orb_body_def dashOffset_of_def num_or_def algebra_simps)

lemma sweep_RiskOrb:
  "sweep (RiskOrb (Some (Num x)) lvl) = Some (Num (x * circumference_of 45))"
  "sweep (RiskOrb_pcna (Some (Num x)) lvl) = Some (Num (x * circumference_of 42))"
  by (simp_all add: RiskOrb_def RiskOrb_pcna_def sweep_orb_body)

lemma absent_orb_body:
  "arc (orb_body radius h None) = None"
  "centre (orb_body radius h None) = em_dash"
  "\<not> caption (orb_body radius h None)"
  "dashOffset_of radius None = Num (circumference_of radius)"
  by (simp_all add: orb_body_def pct_of_def dashOffset_of_def num_or_def)

lemma circumference_value:
  "circumference_of 45 = 2 * pi * 45" "circumference_of 42 = 2 * pi * 42"
  "0 < circumference_of 45" "0 < circumference_of 42"
  by (simp_all add: circumference_of_def)

text \<open>
  C6. The circumference is \<open>2 * pi * 45\<close> (\<open>2 * pi * 42\<close> in the resident variant), a
  positive length, and it is the dash array of the coloured circle. For scores \<open>a \<le> b\<close>
  in \<open>[0, 1]\<close> the sweep of the gauge is the score times the circumference, so it does not
  decrease from \<open>a\<close> to \<open>b\<close> and grows when \<open>a < b\<close>; it is 0 at the score 0, where the
  offset is the whole circumference, and the whole circumference at the score 1, where
  the offset is 0. With no score the coloured circle is not drawn, the centre shows the
  dash, and the offset computed is the circumference, a number.
\<close>

theorem ring_gauge_sweep:
  assumes "0 \<le> a" and "a \<le> b" and "b \<le> 1"
  shows "circumference_of 45 = 2 * pi * 45 \<and> 0 < circumference_of 45 \<and>
         sweep (RiskOrb (Some (Num a)) lvl) = Some (Num (a * (2 * pi * 45))) \<and>
         sweep (RiskOrb (Some (Num b)) lvl) = Some (Num (b * (2 * pi * 45))) \<and>
         a * (2 * pi * 45) \<le> b * (2 * pi * 45) \<and>
         (a < b \<longrightarrow> a * (2 * pi * 45) < b * (2 * pi * 45)) \<and>
         sweep (RiskOrb (Some (Num 0)) lvl) = Some (Num 0) \<and>
         arc (RiskOrb (Some (Num 0)) lvl) = Some (Num (2 * pi * 45), Num (2 * pi * 45)) \<and>
         sweep (RiskOrb (Some (Num 1)) lvl) = Some (Num (2 * pi * 45)) \<and>
         arc (RiskOrb (Some (Num 1)) lvl) = Some (Num (2 * pi * 45), Num 0) \<and>
         arc (RiskOrb None lvl) = None \<and> sweep (RiskOrb None lvl) = None \<and>
         centre (RiskOrb None lvl) = em_dash \<and>
         dashOffset_of 45 None = Num (2 * pi * 45) \<and>
         circumference_of 42 = 2 * pi * 42 \<and> 0 < circumference_of 42 \<and>
         sweep (RiskOrb_pcna (Some (Num a)) lvl) = Some (Num (a * (2 * pi * 42))) \<and>
         sweep (RiskOrb_pcna (Some (Num b)) lvl) = Some (Num (b * (2 * pi * 42))) \<and>
         a * (2 * pi * 42) \<le> b * (2 * pi * 42) \<and>
         (a < b \<longrightarrow> a * (2 * pi * 42) < b * (2 * pi * 42)) \<and>
         sweep (RiskOrb_pcna (Some (Num 0)) lvl) = Some (Num 0) \<and>
         arc (RiskOrb_pcna (Some (Num 0)) lvl) = Some (Num (2 * pi * 42), Num (2 * pi * 42)) \<and>
         sweep (RiskOrb_pcna (Some (Num 1)) lvl) = Some (Num (2 * pi * 42)) \<and>
         arc (RiskOrb_pcna (Some (Num 1)) lvl) = Some (Num (2 * pi * 42), Num 0) \<and>
         arc (RiskOrb_pcna None lvl) = None \<and> sweep (RiskOrb_pcna None lvl) = None \<and>
         centre (RiskOrb_pcna None lvl) = em_dash \<and>
         dashOffset_of 42 None = Num (2 * pi * 42)"
proof -
  have le: "a * (2 * pi * 45) \<le> b * (2 * pi * 45)" "a * (2 * pi * 42) \<le> b * (2 * pi * 42)"
    using assms(2) by (simp_all add: mult_right_mono)
  have lt: "a < b \<longrightarrow> a * (2 * pi * 45) < b * (2 * pi * 45)"
    "a < b \<longrightarrow> a * (2 * pi * 42) < b * (2 * pi * 42)"
    by simp_all
  have sw: "sweep (RiskOrb (Some (Num x)) lvl) = Some (Num (x * (2 * pi * 45)))"
    "sweep (RiskOrb_pcna (Some (Num x)) lvl) = Some (Num (x * (2 * pi * 42)))" for x
    by (simp_all add: sweep_RiskOrb circumference_of_def)
  have arcs: "arc (RiskOrb (Some (Num 0)) lvl) = Some (Num (2 * pi * 45), Num (2 * pi * 45))"
    "arc (RiskOrb (Some (Num 1)) lvl) = Some (Num (2 * pi * 45), Num 0)"
    "arc (RiskOrb_pcna (Some (Num 0)) lvl) = Some (Num (2 * pi * 42), Num (2 * pi * 42))"
    "arc (RiskOrb_pcna (Some (Num 1)) lvl) = Some (Num (2 * pi * 42), Num 0)"
    by (simp_all add: RiskOrb_def RiskOrb_pcna_def orb_body_def dashOffset_of_def num_or_def
        circumference_of_def)
  have absent: "arc (RiskOrb None lvl) = None" "centre (RiskOrb None lvl) = em_dash"
    "arc (RiskOrb_pcna None lvl) = None" "centre (RiskOrb_pcna None lvl) = em_dash"
    "sweep (RiskOrb None lvl) = None" "sweep (RiskOrb_pcna None lvl) = None"
    "dashOffset_of 45 None = Num (2 * pi * 45)" "dashOffset_of 42 None = Num (2 * pi * 42)"
    by (simp_all add: RiskOrb_def RiskOrb_pcna_def absent_orb_body sweep_def circumference_of_def)
  have s0: "sweep (RiskOrb (Some (Num 0)) lvl) = Some (Num 0)"
    "sweep (RiskOrb_pcna (Some (Num 0)) lvl) = Some (Num 0)"
    "sweep (RiskOrb (Some (Num 1)) lvl) = Some (Num (2 * pi * 45))"
    "sweep (RiskOrb_pcna (Some (Num 1)) lvl) = Some (Num (2 * pi * 42))"
    using sw [of 0] sw [of 1] by simp_all
  show ?thesis
    using le lt sw [of a] sw [of b] arcs absent s0 circumference_value by blast
qed

theorem ring_gauge_sweep_witness:
  "(0::real) \<le> 1 / 4 \<and> (1 / 4 :: real) \<le> 3 / 4 \<and> (3 / 4 :: real) \<le> 1 \<and>
   (1 / 4 :: real) < 3 / 4 \<and>
   sweep (RiskOrb (Some (Num (1 / 4))) (Some ''LOW'')) = Some (Num (1 / 4 * (2 * pi * 45))) \<and>
   sweep (RiskOrb (Some (Num (3 / 4))) (Some ''LOW'')) = Some (Num (3 / 4 * (2 * pi * 45))) \<and>
   (1 / 4 * (2 * pi * 45) :: real) < 3 / 4 * (2 * pi * 45) \<and>
   sweep (RiskOrb_pcna (Some (Num (1 / 4))) (Some ''LOW'')) = Some (Num (1 / 4 * (2 * pi * 42))) \<and>
   sweep (RiskOrb_pcna (Some (Num (3 / 4))) (Some ''LOW'')) = Some (Num (3 / 4 * (2 * pi * 42))) \<and>
   (1 / 4 * (2 * pi * 42) :: real) < 3 / 4 * (2 * pi * 42)"
  using ring_gauge_sweep [of "1 / 4" "3 / 4" "Some ''LOW''"] by simp

section \<open>Properties of the remote client\<close>

lemma api_failing:
  assumes "failing out"
  shows "\<exists>m. m \<noteq> [] \<and> api out = Inr \<lparr>error_field = Some m, content = None\<rparr>"
proof (cases out)
  case (Rejected e)
  then show ?thesis
    by (cases e) (simp add: api_def api_try_def api_catch_def truthy_str_def split: option.splits)
next
  case (Response st body)
  show ?thesis
  proof (cases "ok st")
    case False
    with Response show ?thesis
      by (simp add: api_def api_try_def api_catch_def truthy_str_def)
  next
    case True
    with assms Response obtain e where "body = Inl e"
      by (cases body) (simp_all add: failing_def)
    with True Response show ?thesis
      by (cases e) (simp add: api_def api_try_def api_catch_def truthy_str_def split: option.splits)
  qed
qed

lemma api_succeeding:
  assumes "\<not> failing out"
  shows "\<exists>st v. out = Response st (Inr v) \<and> ok st \<and> api out = Inr v"
proof (cases out)
  case (Rejected e)
  with assms show ?thesis by (simp add: failing_def)
next
  case (Response st body)
  with assms have "ok st" and "\<not> isl body" by (simp_all add: failing_def)
  then obtain v where "body = Inr v" by (cases body) simp_all
  with Response \<open>ok st\<close> show ?thesis by (simp add: api_def api_try_def)
qed

text \<open>A base address stored before a call is the one that call uses.\<close>

lemma api_url_reads_storage:
  "u \<noteq> [] \<Longrightarrow> api_url stored_at_load (Some u) path = u @ ''/api'' @ path"
  by (simp add: api_url_def)

lemma api_returns: "\<exists>v. api out = Inr v"
  by (simp add: api_def split: sum.splits)

text \<open>
  C3. Whatever the request does, \<^verbatim>\<open>api\<close> returns and throws nothing. When the request
  fails (the fetch is rejected, the status is outside 200 to 299, or the body does not
  parse) it returns the object that has only the error field, with a message that is not
  empty; otherwise it returns the parsed body as it is. An error field that is present
  and not empty is what tells the two apart.
\<close>

theorem api_uniform_error:
  "(\<exists>v. api out = Inr v) \<and>
   (failing out \<longrightarrow>
      (\<exists>m. m \<noteq> [] \<and> api out = Inr \<lparr>error_field = Some m, content = None\<rparr>)) \<and>
   (\<not> failing out \<longrightarrow> (\<exists>st v. out = Response st (Inr v) \<and> ok st \<and> api out = Inr v))"
  using api_returns api_failing api_succeeding by blast

theorem api_uniform_error_witness:
  "failing (Response 500 (Inr \<lparr>error_field = None, content = Some (0::nat)\<rparr>)) \<and>
   (\<exists>m. m \<noteq> [] \<and>
      api (Response 500 (Inr \<lparr>error_field = None, content = Some (0::nat)\<rparr>)) =
        Inr \<lparr>error_field = Some m, content = None\<rparr>) \<and>
   \<not> failing (Response 200 (Inr \<lparr>error_field = None, content = Some (0::nat)\<rparr>)) \<and>
   api (Response 200 (Inr \<lparr>error_field = None, content = Some (0::nat)\<rparr>)) =
     Inr \<lparr>error_field = None, content = Some 0\<rparr>"
  using api_uniform_error [of "Response 500 (Inr \<lparr>error_field = None, content = Some (0::nat)\<rparr>)"]
    api_uniform_error [of "Response 200 (Inr \<lparr>error_field = None, content = Some (0::nat)\<rparr>)"]
  by (simp add: failing_def ok_def)

lemma api_messages:
  "api (Response 404 body) = Inr \<lparr>error_field = Some ''HTTP 404'', content = None\<rparr>"
  "api (Rejected (Thrown (Some ''Failed to fetch''))) =
     Inr \<lparr>error_field = Some ''Failed to fetch'', content = None\<rparr>"
  "api (Rejected (Thrown None)) = Inr \<lparr>error_field = Some ''Server unreachable'', content = None\<rparr>"
  "api (Rejected (Thrown (Some []))) = Inr \<lparr>error_field = Some ''Server unreachable'', content = None\<rparr>"
  by (simp_all add: api_def api_try_def api_catch_def truthy_str_def ok_def digit_char_def)

section \<open>Properties of the single assessment view\<close>

lemma predict_returns:
  "\<exists>s'. predict out s = Inr s' \<and> \<not> loading s' \<and> form s' = form s"
proof -
  obtain res where "api out = Inr res" using api_returns by blast
  then show ?thesis by (simp add: predict_def predict_finish_def predict_start_def)
qed

lemma predict_pcna_returns:
  "\<exists>s'. predict_pcna out s = Inr s' \<and> \<not> loading s' \<and> form s' = form s"
proof -
  obtain res where "api out = Inr res" using api_returns by blast
  then show ?thesis by (simp add: predict_pcna_def predict_finish_def predict_start_pcna_def)
qed

text \<open>A submission writes one of the two: the error when it fails, the result when not.\<close>

lemma predict_finish_writes_one:
  "(truthy_str (error_field res) \<longrightarrow>
      error (predict_finish res s) = error_field res \<and> result (predict_finish res s) = result s) \<and>
   (\<not> truthy_str (error_field res) \<longrightarrow>
      result (predict_finish res s) = Some res \<and> error (predict_finish res s) = error s)"
  by (simp add: predict_finish_def)

text \<open>From a view without a result, a submission ends with exactly one of the two.\<close>

lemma predict_exactly_one_without_prior_result:
  assumes "result s = None" and "predict out s = Inr s'"
  shows "has_result s' \<noteq> has_error s'"
proof -
  obtain res where r: "api out = Inr res" using api_returns by blast
  with assms(2) have s': "s' = predict_finish res (s\<lparr>loading := True, error := None\<rparr>)"
    by (simp add: predict_def predict_start_def)
  show ?thesis
    using assms(1) unfolding s'
    by (simp add: predict_finish_def has_result_def has_error_def truthy_str_def)
qed

text \<open>The batch view clears the result when a run starts, and always ends with one.\<close>

lemma run_exactly_one:
  "has_result (run_finish res (run_start True s)) \<noteq> has_error (run_finish res (run_start True s)) \<and>
   \<not> loading (run_finish res (run_start True s))"
  by (simp add: run_finish_def run_start_def has_result_def has_error_def truthy_str_def)

text \<open>
  C4. A submission that fails after one that succeeded leaves the view with both: the
  result of the first and the error of the second. The loading flag is cleared.
\<close>

theorem predict_failure_keeps_earlier_result:
  "predict (Response 200 (Inr \<lparr>error_field = None,
       content = Some \<lparr>risk_score = Num 0.9, alert_level = ''URGENT'', action = ''Escalate''\<rparr>\<rparr>))
     SinglePatient =
   Inr (SinglePatient\<lparr>result := Some \<lparr>error_field = None,
       content = Some \<lparr>risk_score = Num 0.9, alert_level = ''URGENT'', action = ''Escalate''\<rparr>\<rparr>\<rparr>) \<and>
   predict (Rejected (Thrown (Some ''Failed to fetch'')))
     (SinglePatient\<lparr>result := Some \<lparr>error_field = None,
       content = Some \<lparr>risk_score = Num 0.9, alert_level = ''URGENT'', action = ''Escalate''\<rparr>\<rparr>\<rparr>) =
   Inr (SinglePatient\<lparr>result := Some \<lparr>error_field = None,
       content = Some \<lparr>risk_score = Num 0.9, alert_level = ''URGENT'', action = ''Escalate''\<rparr>\<rparr>,
     error := Some ''Failed to fetch''\<rparr>) \<and>
   has_result (SinglePatient\<lparr>result := Some \<lparr>error_field = None,
       content = Some \<lparr>risk_score = Num 0.9, alert_level = ''URGENT'', action = ''Escalate''\<rparr>\<rparr>,
     error := Some ''Failed to fetch''\<rparr>) \<and>
   has_error (SinglePatient\<lparr>result := Some \<lparr>error_field = None,
       content = Some \<lparr>risk_score = Num 0.9, alert_level = ''URGENT'', action = ''Escalate''\<rparr>\<rparr>,
     error := Some ''Failed to fetch''\<rparr>)"
  by (simp add: predict_def predict_start_def predict_finish_def api_def api_try_def
      api_catch_def truthy_str_def ok_def SinglePatient_def has_result_def has_error_def)

section \<open>Properties of the presets\<close>

lemma applyPreset_replaces:
  assumes "map_of PRESETS p = Some f"
  shows "applyPreset p s = Some (s\<lparr>form := f, result := None\<rparr>)"
  using assms by (simp add: applyPreset_def)

text \<open>Applied twice, a preset gives the same state as applied once.\<close>

lemma applyPreset_idempotent:
  assumes "applyPreset p s = Some s1"
  shows "applyPreset p s1 = Some s1 \<and> map_of PRESETS p = Some (form s1) \<and> result s1 = None"
  using assms by (auto simp: applyPreset_def split: option.splits)

lemma applyPreset_pcna_idempotent:
  assumes "applyPreset_pcna p s = Some s1"
  shows "applyPreset_pcna p s1 = Some s1 \<and>
         map_option snd (map_of PRESETS_pcna p) = Some (form s1) \<and>
         result s1 = None \<and> error s1 = None"
  using assms by (auto simp: applyPreset_pcna_def split: option.splits)

lemma applyPreset_buttons:
  "p \<in> set (map fst PRESETS) \<Longrightarrow> \<exists>s1. applyPreset p s = Some s1"
  "p \<in> set (map fst PRESETS_pcna) \<Longrightarrow> \<exists>s1. applyPreset_pcna p s = Some s1"
  by (auto simp: applyPreset_def applyPreset_pcna_def PRESETS_def PRESETS_pcna_def)

text \<open>
  C7. In \<^verbatim>\<open>src/Dashboard_App.tsx\<close> a preset does not clear the error: after a
  submission that failed with the status 500, the preset \<^verbatim>\<open>stable\<close> replaces the form and
  leaves the message in place. In the resident variant the same click clears it.
\<close>

theorem applyPreset_keeps_error:
  "predict (Response 500 body) SinglePatient =
     Inr (SinglePatient\<lparr>error := Some ''HTTP 500''\<rparr>) \<and>
   map_option error (applyPreset ''stable'' (SinglePatient\<lparr>error := Some ''HTTP 500''\<rparr>)) =
     Some (Some ''HTTP 500'') \<and>
   map_option has_error (applyPreset ''stable'' (SinglePatient\<lparr>error := Some ''HTTP 500''\<rparr>)) =
     Some True \<and>
   map_option error (applyPreset_pcna ''stable'' (SingleResident\<lparr>error := Some ''HTTP 500''\<rparr>)) =
     Some None"
  by (simp add: predict_def predict_start_def predict_finish_def api_def api_try_def
      api_catch_def truthy_str_def ok_def SinglePatient_def SingleResident_def has_error_def
      applyPreset_def applyPreset_pcna_def PRESETS_def PRESETS_pcna_def digit_char_def)

section \<open>Properties of the batch cards\<close>

lemma count_of_absent: "map_of (breakdown r) lvl = None \<Longrightarrow> count_of r lvl = Num 0"
  by (simp add: count_of_def num_or_def)

lemma count_of_not_NaN: "count_of r lvl \<noteq> NaN"
  by (auto simp: count_of_def num_or_def split: option.splits)

text \<open>
  C8. Each card shows the count of its level, which is 0 when the breakdown of the server
  has no entry for the level (and never not-a-number). For the counts 3, 1, 0, 0 of a
  total of 4 the cards show 75, 25, 0 and 0 per cent, in both variants.
\<close>

theorem batch_cards_counts:
  "map card_count (batch_cards (Some r)) = map (count_of r) levels \<and>
   map card_count (batch_cards_pcna (Some r)) = map (count_of r) levels \<and>
   (map_of (breakdown r) lvl = None \<longrightarrow> count_of r lvl = Num 0) \<and>
   count_of r lvl \<noteq> NaN \<and>
   map (\<lambda>c. (card_count c, card_pct c))
     (batch_cards (Some \<lparr>alert_breakdown = Some [(''LOW'', Num 3), (''MEDIUM'', Num 1),
         (''HIGH'', Num 0), (''URGENT'', Num 0)], total_patients = Some (Num 4)\<rparr>)) =
     [(Num 3, ''75''), (Num 1, ''25''), (Num 0, ''0''), (Num 0, ''0'')] \<and>
   map (\<lambda>c. (card_count c, card_pct c))
     (batch_cards_pcna (Some \<lparr>alert_breakdown = Some [(''LOW'', Num 3), (''MEDIUM'', Num 1),
         (''HIGH'', Num 0), (''URGENT'', Num 0)], total_patients = Some (Num 4)\<rparr>)) =
     [(Num 3, ''75''), (Num 1, ''25''), (Num 0, ''0''), (Num 0, ''0'')]"
proof -
  have a: "map card_count (batch_cards (Some r)) = map (count_of r) levels"
    "map card_count (batch_cards_pcna (Some r)) = map (count_of r) levels"
    by (simp_all add: batch_cards_def batch_cards_pcna_def comp_def)
  have b: "map (\<lambda>c. (card_count c, card_pct c))
     (batch_cards (Some \<lparr>alert_breakdown = Some [(''LOW'', Num 3), (''MEDIUM'', Num 1),
         (''HIGH'', Num 0), (''URGENT'', Num 0)], total_patients = Some (Num 4)\<rparr>)) =
     [(Num 3, ''75''), (Num 1, ''25''), (Num 0, ''0''), (Num 0, ''0'')]"
    by (simp add: batch_cards_def levels_def count_of_def breakdown_def pct_text_def
        num_or_def digit_char_def)
  have c: "map (\<lambda>c. (card_count c, card_pct c))
     (batch_cards_pcna (Some \<lparr>alert_breakdown = Some [(''LOW'', Num 3), (''MEDIUM'', Num 1),
         (''HIGH'', Num 0), (''URGENT'', Num 0)], total_patients = Some (Num 4)\<rparr>)) =
     [(Num 3, ''75''), (Num 1, ''25''), (Num 0, ''0''), (Num 0, ''0'')]"
    by (simp add: batch_cards_pcna_def levels_def count_of_def breakdown_def pct_text_pcna_def
        num_or_def digit_char_def show_int_def)
  show ?thesis
    using a b c count_of_absent [of r lvl] count_of_not_NaN [of r lvl] by blast
qed

theorem batch_cards_counts_witness:
  "map_of (breakdown \<lparr>alert_breakdown = Some [(''LOW'', Num 3)], total_patients = Some (Num 3)\<rparr>)
     ''HIGH'' = None \<and>
   count_of \<lparr>alert_breakdown = Some [(''LOW'', Num 3)], total_patients = Some (Num 3)\<rparr> ''HIGH'' =
     Num 0 \<and>
   map card_count
     (batch_cards (Some \<lparr>alert_breakdown = Some [(''LOW'', Num 3)], total_patients = Some (Num 3)\<rparr>)) =
     map (count_of \<lparr>alert_breakdown = Some [(''LOW'', Num 3)], total_patients = Some (Num 3)\<rparr>) levels"
  using batch_cards_counts
    [of "\<lparr>alert_breakdown = Some [(''LOW'', Num 3)], total_patients = Some (Num 3)\<rparr>" "''HIGH''"]
  by (simp add: breakdown_def)

section \<open>Properties of the change handler\<close>

lemma map_of_replace:
  "map_of (map (\<lambda>(k', x). if k' = k then (k', v) else (k', x)) f) j =
     (if j = k then (if k \<in> set (map fst f) then Some v else None) else map_of f j)"
  by (induction f) (auto simp: rev_image_eqI)

lemma map_of_obj_set: "map_of (obj_set f k v) = (map_of f)(k \<mapsto> v)"
proof (cases "k \<in> set (map fst f)")
  case True
  then show ?thesis by (auto simp: obj_set_def map_of_replace fun_eq_iff)
next
  case False
  then have "map_of f k = None" by (simp add: map_of_eq_None_iff)
  with False show ?thesis
    by (auto simp: obj_set_def fun_eq_iff map_add_def split: option.splits)
qed





lemma change_other_fields:
  "j \<noteq> target_name e \<Longrightarrow> map_of (change e f) j = map_of f j"
  "j \<noteq> target_name e \<Longrightarrow> map_of (change_pcna e f) j = map_of f j"
  by (simp_all add: change_def change_pcna_def map_of_obj_set)









section \<open>Properties of the live view\<close>

lemma funpow_call_fields:
  "timers ((fetchAlerts_call ^^ k) s) = timers s"
  "autoRefresh ((fetchAlerts_call ^^ k) s) = autoRefresh s"
  "intervalRef ((fetchAlerts_call ^^ k) s) = intervalRef s"
  "next_timer ((fetchAlerts_call ^^ k) s) = next_timer s"
  "requests ((fetchAlerts_call ^^ k) s) = requests s + k"
  by (induction k) (simp_all add: fetchAlerts_call_def)

lemma tick_fields:
  "timers (tick s) = map step_timer (timers s)"
  "autoRefresh (tick s) = autoRefresh s"
  "intervalRef (tick s) = intervalRef s"
  "next_timer (tick s) = next_timer s"
  "requests (tick s) = requests s + length (filter fires (timers s))"
  by (simp_all add: tick_def funpow_call_fields)

lemma resume_fields:
  "timers (fetchAlerts_resume res s) = timers s"
  "autoRefresh (fetchAlerts_resume res s) = autoRefresh s"
  "intervalRef (fetchAlerts_resume res s) = intervalRef s"
  "next_timer (fetchAlerts_resume res s) = next_timer s"
  "requests (fetchAlerts_resume res s) = requests s"
  by (simp_all add: fetchAlerts_resume_def split: option.splits)

lemma one_timer_mount: "one_timer (mount t)"
  by (simp add: one_timer_def mount_def auto_effect_def clear_ref_def fetchAlerts_call_def)

lemma one_timer_toggle: "one_timer s \<Longrightarrow> next_timer s \<noteq> 0 \<Longrightarrow> one_timer (toggle s)"
  by (auto simp: one_timer_def toggle_def auto_effect_def auto_cleanup_def clear_ref_def
      clearInterval_def setInterval_def split: option.splits)

lemma one_timer_tick: "one_timer s \<Longrightarrow> one_timer (tick s)"
proof (cases "autoRefresh s")
  case False
  assume "one_timer s"
  with False show ?thesis by (simp add: one_timer_def tick_fields)
next
  case True
  assume "one_timer s"
  with True obtain i d where *: "intervalRef s = Some i" "i \<noteq> 0" "1 \<le> d" "d \<le> 60000"
      "timers s = [\<lparr>timer_id = i, period = 60000, due_in = d\<rparr>]"
    by (auto simp: one_timer_def)
  show ?thesis
  proof (cases "d \<le> 1")
    case True
    with * \<open>autoRefresh s\<close> show ?thesis
      by (simp add: one_timer_def tick_fields step_timer_def fires_def)
  next
    case False
    then have "1 \<le> d - 1" "d - 1 \<le> 60000" using * by simp_all
    with False * \<open>autoRefresh s\<close> show ?thesis
      by (simp add: one_timer_def tick_fields step_timer_def fires_def)
  qed
qed

lemma one_timer_call: "one_timer s \<Longrightarrow> one_timer (fetchAlerts_call s)"
  by (auto simp: one_timer_def fetchAlerts_call_def split: if_splits)

lemma one_timer_resume: "one_timer s \<Longrightarrow> one_timer (fetchAlerts_resume res s)"
  by (auto simp: one_timer_def resume_fields split: if_splits)

lemma one_timer_filter: "one_timer s \<Longrightarrow> one_timer (s\<lparr>filter_level := f\<rparr>)"
  by (auto simp: one_timer_def split: if_splits)

lemma next_timer_toggle: "next_timer s \<noteq> 0 \<Longrightarrow> next_timer (toggle s) \<noteq> 0"
  by (simp add: toggle_def auto_effect_def auto_cleanup_def clear_ref_def
      clearInterval_def setInterval_def split: option.splits)

lemma next_timer_mount: "next_timer (mount t) \<noteq> 0"
  by (simp add: mount_def auto_effect_def clear_ref_def fetchAlerts_call_def)

lemma reachable_inv: "reachable s \<Longrightarrow> one_timer s \<and> next_timer s \<noteq> 0"
proof (induction rule: reachable.induct)
  case (r_mount t)
  show ?case by (simp add: one_timer_mount next_timer_mount)
next
  case (r_toggle s)
  then show ?case by (simp add: one_timer_toggle next_timer_toggle)
next
  case (r_tick s)
  then show ?case by (simp add: one_timer_tick tick_fields)
next
  case (r_refresh s)
  then show ?case by (simp add: one_timer_call) (simp add: fetchAlerts_call_def)
next
  case (r_response s res)
  then show ?case by (simp add: one_timer_resume resume_fields)
next
  case (r_filter s f)
  then show ?case by (simp add: one_timer_filter)
qed

lemma unmount_clears: "one_timer s \<Longrightarrow> timers (unmount s) = []"
  by (auto simp: one_timer_def unmount_def auto_cleanup_def clear_ref_def clearInterval_def
      split: if_splits option.splits)

lemma advance_idle: "timers s = [] \<Longrightarrow> timers (advance m s) = [] \<and> requests (advance m s) = requests s"
  by (induction m arbitrary: s) (simp_all add: tick_fields)

lemma advance_single:
  "timers s = [\<lparr>timer_id = i, period = p, due_in = d\<rparr>] \<Longrightarrow> 1 \<le> d \<Longrightarrow> 0 < p \<Longrightarrow>
   requests (advance m s) = requests s + (if m < d then 0 else 1 + (m - d) div p)"
proof (induction m arbitrary: s d)
  case 0
  then show ?case by simp
next
  case (Suc m)
  show ?case
  proof (cases "d \<le> 1")
    case True
    then have d1: "d = 1" using Suc.prems by simp
    have t: "timers (tick s) = [\<lparr>timer_id = i, period = p, due_in = p\<rparr>]"
      and r: "requests (tick s) = requests s + 1"
      using Suc.prems d1 by (simp_all add: tick_fields step_timer_def fires_def)
    have "requests (advance m (tick s)) = requests (tick s) + (if m < p then 0 else 1 + (m - p) div p)"
      using Suc.IH [OF t] Suc.prems by simp
    moreover have "(if m < p then 0 else 1 + (m - p) div p) = m div p"
      using Suc.prems by (simp add: le_div_geq)
    ultimately show ?thesis using r d1 by simp
  next
    case False
    have t: "timers (tick s) = [\<lparr>timer_id = i, period = p, due_in = d - 1\<rparr>]"
      and r: "requests (tick s) = requests s"
      using Suc.prems False by (simp_all add: tick_fields step_timer_def fires_def)
    have "requests (advance m (tick s)) =
        requests (tick s) + (if m < d - 1 then 0 else 1 + (m - (d - 1)) div p)"
      using Suc.IH [OF t] Suc.prems False by simp
    moreover have "(m < d - 1) = (Suc m < d)" using False by auto
    moreover have "m - (d - 1) = Suc m - d" using False by auto
    ultimately show ?thesis using r by simp
  qed
qed

lemma toggle_on:
  "one_timer s \<Longrightarrow> \<not> autoRefresh s \<Longrightarrow>
   timers (toggle s) = [\<lparr>timer_id = next_timer s, period = 60000, due_in = 60000\<rparr>] \<and>
   requests (toggle s) = requests s \<and> autoRefresh (toggle s)"
  by (simp add: one_timer_def toggle_def auto_effect_def auto_cleanup_def clear_ref_def
      clearInterval_def setInterval_def split: option.splits)

lemma schedule:
  assumes "one_timer s" "\<not> autoRefresh s"
  shows "requests (advance m (toggle s)) = requests s + m div 60000"
proof -
  have "requests (advance m (toggle s)) =
      requests (toggle s) + (if m < 60000 then 0 else 1 + (m - 60000) div 60000)"
    using toggle_on [OF assms] by (intro advance_single [where i = "next_timer s"]) simp_all
  moreover have "(if m < 60000 then 0 else 1 + (m - 60000) div 60000) = m div 60000"
    by (simp add: le_div_geq)
  ultimately show ?thesis using toggle_on [OF assms] by simp
qed

lemma toggle_off:
  "one_timer s \<Longrightarrow> autoRefresh s \<Longrightarrow>
   timers (toggle s) = [] \<and> requests (toggle s) = requests s \<and> \<not> autoRefresh (toggle s)"
  by (auto simp: one_timer_def toggle_def auto_effect_def auto_cleanup_def clear_ref_def
      clearInterval_def split: option.splits)

lemma advance_reachable: "reachable s \<Longrightarrow> reachable (advance m s)"
  by (induction m arbitrary: s) (simp_all add: r_tick)

lemma advance_autoRefresh: "autoRefresh (advance m s) = autoRefresh s"
  by (induction m arbitrary: s) (simp_all add: tick_fields)

text \<open>
  In every state of the mounted view the live timers are the one of the switch, when it is
  on, and none otherwise; unmounting leaves none.
\<close>

lemma reachable_timers:
  assumes "reachable s"
  shows "length (timers s) = (if autoRefresh s then 1 else 0)" and "timers (unmount s) = []"
proof -
  have "one_timer s" using assms reachable_inv by blast
  then show "length (timers s) = (if autoRefresh s then 1 else 0)"
    by (auto simp: one_timer_def split: if_splits)
  show "timers (unmount s) = []" using \<open>one_timer s\<close> by (rule unmount_clears)
qed

text \<open>
  C2. From a state of the mounted view with the switch off: turning it on sends a
  request every 60000 ms (after \<open>m\<close> ms there have been \<open>m div 60000\<close> more). Turning it
  off again after \<open>m\<close> ms leaves no live timer and no request is sent however long one
  waits; when \<open>m < 60000\<close> none has been sent at all. Unmounting, with the switch on or
  after it was turned off, leaves no live timer either.
\<close>

theorem auto_refresh_schedule_and_cancel:
  assumes "reachable s" and "\<not> autoRefresh s"
  shows "timers (toggle s) = [\<lparr>timer_id = next_timer s, period = 60000, due_in = 60000\<rparr>] \<and>
         requests (advance m (toggle s)) = requests s + m div 60000 \<and>
         timers (toggle (advance m (toggle s))) = [] \<and>
         timers (advance k (toggle (advance m (toggle s)))) = [] \<and>
         requests (advance k (toggle (advance m (toggle s)))) = requests s + m div 60000 \<and>
         (m < 60000 \<longrightarrow> requests (advance k (toggle (advance m (toggle s)))) = requests s) \<and>
         timers (unmount (advance m (toggle s))) = [] \<and>
         timers (unmount (advance k (toggle (advance m (toggle s))))) = []"
proof -
  have inv: "one_timer s" using assms(1) reachable_inv by blast
  have on: "timers (toggle s) = [\<lparr>timer_id = next_timer s, period = 60000, due_in = 60000\<rparr>]"
    using toggle_on [OF inv assms(2)] by simp
  have sched: "requests (advance m (toggle s)) = requests s + m div 60000"
    using schedule [OF inv assms(2)] .
  have r1: "reachable (advance m (toggle s))"
    by (rule advance_reachable [OF r_toggle [OF assms(1)]])
  have a1: "autoRefresh (advance m (toggle s))"
    using toggle_on [OF inv assms(2)] by (simp add: advance_autoRefresh)
  have inv1: "one_timer (advance m (toggle s))" using r1 reachable_inv by blast
  have off: "timers (toggle (advance m (toggle s))) = []"
    "requests (toggle (advance m (toggle s))) = requests (advance m (toggle s))"
    using toggle_off [OF inv1 a1] by simp_all
  have idle: "timers (advance k (toggle (advance m (toggle s)))) = []"
    "requests (advance k (toggle (advance m (toggle s)))) = requests s + m div 60000"
    using advance_idle [OF off(1), of k] off(2) sched by simp_all
  have u1: "timers (unmount (advance m (toggle s))) = []"
    using inv1 by (rule unmount_clears)
  have "reachable (advance k (toggle (advance m (toggle s))))"
    by (rule advance_reachable [OF r_toggle [OF r1]])
  then have u2: "timers (unmount (advance k (toggle (advance m (toggle s))))) = []"
    by (rule reachable_timers(2))
  show ?thesis using on sched off(1) idle u1 u2 by simp
qed

theorem auto_refresh_schedule_and_cancel_witness:
  "reachable (mount 0 :: nat live_state) \<and> \<not> autoRefresh (mount 0 :: nat live_state) \<and>
   requests (advance 180000 (toggle (mount 0 :: nat live_state))) =
     requests (mount 0 :: nat live_state) + 3 \<and>
   timers (toggle (advance 30000 (toggle (mount 0 :: nat live_state)))) = [] \<and>
   (30000 :: nat) < 60000 \<and>
   requests (advance 600000 (toggle (advance 30000 (toggle (mount 0 :: nat live_state))))) =
     requests (mount 0 :: nat live_state) \<and>
   timers (unmount (advance 30000 (toggle (mount 0 :: nat live_state)))) = []"
proof -
  have r: "reachable (mount 0 :: nat live_state)" by (rule r_mount)
  have a: "\<not> autoRefresh (mount 0 :: nat live_state)"
    by (simp add: mount_def auto_effect_def clear_ref_def fetchAlerts_call_def)
  show ?thesis
    using r a auto_refresh_schedule_and_cancel [OF r a, of 180000 0]
      auto_refresh_schedule_and_cancel [OF r a, of 30000 600000]
    by simp
qed

text \<open>
  C5. A fetch of the current alerts that fails (rejected, status outside 200 to 299, or a
  body that does not parse) ends with the list on display, the time of the last refresh,
  the switch, the timers and the reference as they were, and with the loading flag
  cleared. The same holds for any reply that carries an error, also one that the server
  sent together with a list.
\<close>

theorem fetchAlerts_failure_keeps_list:
  "(failing out \<longrightarrow>
      (\<exists>s'. fetchAlerts out s = Inr s' \<and> patients s' = patients s \<and>
         lastRefresh s' = lastRefresh s \<and> autoRefresh s' = autoRefresh s \<and>
         timers s' = timers s \<and> intervalRef s' = intervalRef s \<and> \<not> loading s')) \<and>
   (truthy_str (error_field res) \<longrightarrow>
      patients (fetchAlerts_resume res s) = patients s \<and>
      lastRefresh (fetchAlerts_resume res s) = lastRefresh s \<and>
      autoRefresh (fetchAlerts_resume res s) = autoRefresh s \<and>
      timers (fetchAlerts_resume res s) = timers s \<and>
      \<not> loading (fetchAlerts_resume res s))"
proof (intro conjI impI)
  assume "failing out"
  then obtain msg where "msg \<noteq> []"
    and "api out = Inr \<lparr>error_field = Some msg, content = None\<rparr>"
    using api_failing by blast
  then show "\<exists>s'. fetchAlerts out s = Inr s' \<and> patients s' = patients s \<and>
         lastRefresh s' = lastRefresh s \<and> autoRefresh s' = autoRefresh s \<and>
         timers s' = timers s \<and> intervalRef s' = intervalRef s \<and> \<not> loading s'"
    by (simp add: fetchAlerts_def fetchAlerts_resume_def fetchAlerts_call_def truthy_str_def)
qed (simp_all add: fetchAlerts_resume_def)

theorem fetchAlerts_failure_keeps_list_witness:
  "failing (Response 503 (Inl (Thrown None)) :: string alerts fetch_outcome) \<and>
   (\<exists>s'. fetchAlerts (Response 503 (Inl (Thrown None)))
           ((toggle (mount 0))\<lparr>patients := [''A'', ''B'']\<rparr>) = Inr s' \<and>
         patients s' = [''A'', ''B''] \<and> autoRefresh s' \<and>
         timers s' = [\<lparr>timer_id = 1, period = 60000, due_in = 60000\<rparr>]) \<and>
   truthy_str (error_field
     \<lparr>error_field = Some ''model not loaded'', content = Some \<lparr>res_patients = Some [''C'']\<rparr>\<rparr>) \<and>
   patients (fetchAlerts_resume
     \<lparr>error_field = Some ''model not loaded'', content = Some \<lparr>res_patients = Some [''C'']\<rparr>\<rparr>
     ((toggle (mount 0))\<lparr>patients := [''A'', ''B'']\<rparr>)) = [''A'', ''B'']"
proof -
  have f: "failing (Response 503 (Inl (Thrown None)) :: string alerts fetch_outcome)"
    by (simp add: failing_def)
  have e: "truthy_str (error_field
     \<lparr>error_field = Some ''model not loaded'', content = Some \<lparr>res_patients = Some [''C'']\<rparr>\<rparr>)"
    by (simp add: truthy_str_def)
  have t: "autoRefresh (toggle (mount 0 :: string live_state))"
    "timers (toggle (mount 0 :: string live_state)) =
       [\<lparr>timer_id = 1, period = 60000, due_in = 60000\<rparr>]"
    by (simp_all add: toggle_def mount_def auto_effect_def auto_cleanup_def clear_ref_def
        fetchAlerts_call_def setInterval_def)
  show ?thesis
    using f e t fetchAlerts_failure_keeps_list
      [of "Response 503 (Inl (Thrown None))" "(toggle (mount 0))\<lparr>patients := [''A'', ''B'']\<rparr>"
          "\<lparr>error_field = Some ''model not loaded'',
            content = Some \<lparr>res_patients = Some [''C'']\<rparr>\<rparr>"]
    by auto
qed

text \<open>
  C10. A response that has no error to report and no list of patients leaves the list on
  display and the time of the last refresh as they were. In general, the time of the last
  refresh changes only together with the list: a response either leaves both, or stores
  its list and the time of the clock.
\<close>

theorem fetchAlerts_without_list_keeps_timestamp:
  "(\<not> truthy_str (error_field res) \<and>
      (case content res of None \<Rightarrow> True | Some body \<Rightarrow> res_patients body = None) \<longrightarrow>
      patients (fetchAlerts_resume res s) = patients s \<and>
      lastRefresh (fetchAlerts_resume res s) = lastRefresh s) \<and>
   ((patients (fetchAlerts_resume res s) = patients s \<and>
     lastRefresh (fetchAlerts_resume res s) = lastRefresh s) \<or>
    (\<exists>body ps. \<not> truthy_str (error_field res) \<and> content res = Some body \<and>
       res_patients body = Some ps \<and>
       patients (fetchAlerts_resume res s) = ps \<and>
       lastRefresh (fetchAlerts_resume res s) = Some (clock s))) \<and>
   (ok st \<longrightarrow> fetchAlerts (Response st (Inr res)) s =
      Inr (fetchAlerts_resume res (fetchAlerts_call s)))"
  by (auto simp: fetchAlerts_resume_def fetchAlerts_def api_def api_try_def
      split: option.splits)

theorem fetchAlerts_without_list_keeps_timestamp_witness:
  "\<not> truthy_str (error_field \<lparr>error_field = None, content = Some \<lparr>res_patients = None\<rparr>\<rparr>) \<and>
   patients (fetchAlerts_resume \<lparr>error_field = None, content = Some \<lparr>res_patients = None\<rparr>\<rparr>
     ((mount 0)\<lparr>patients := [''A'', ''B''], lastRefresh := Some 5\<rparr>)) = [''A'', ''B''] \<and>
   lastRefresh (fetchAlerts_resume \<lparr>error_field = None, content = Some \<lparr>res_patients = None\<rparr>\<rparr>
     ((mount 0)\<lparr>patients := [''A'', ''B''], lastRefresh := Some 5\<rparr>)) = Some 5 \<and>
   ok 200 \<and>
   fetchAlerts (Response 200 (Inr \<lparr>error_field = None, content = Some \<lparr>res_patients = None\<rparr>\<rparr>))
     ((mount 0)\<lparr>patients := [''A'', ''B''], lastRefresh := Some 5\<rparr>) =
   Inr (fetchAlerts_resume \<lparr>error_field = None, content = Some \<lparr>res_patients = None\<rparr>\<rparr>
     (fetchAlerts_call ((mount 0)\<lparr>patients := [''A'', ''B''], lastRefresh := Some 5\<rparr>)))"
  using fetchAlerts_without_list_keeps_timestamp
    [of "\<lparr>error_field = None, content = Some \<lparr>res_patients = None\<rparr>\<rparr>"
        "(mount 0)\<lparr>patients := [''A'', ''B''], lastRefresh := Some 5\<rparr>" 200]
  by (simp add: truthy_str_def ok_def)

end
